theory Spec2Isabelle
  imports Main "HOL-Library.AList"
begin

section \<open>Data model (src/providers/provider.go, lines 1 to 41)\<close>

text \<open>
  Go strings and byte slices are both sequences of bytes, and an Isabelle \<open>char\<close> is one
  byte, so both are modelled as \<open>string\<close>; \<open>len(x) == 0\<close> is \<open>x = []\<close> and a nil slice
  is the empty list. Go's \<open>int\<close> and \<open>int64\<close> fields are modelled as \<open>int\<close>: the program
  never does arithmetic on them, it only compares them with 0 and prints them.
\<close>

type_synonym bytes = string

record ModelCapabilities =
  Name :: string
  SupportedParams :: "string list"
  MaxWidth :: int
  MaxHeight :: int

record GenerationInput =
  Prompt :: string
  ImageBytes :: bytes
  ImageURL :: string
  Width :: int
  Height :: int
  Model :: string
  Seed :: int
  Steps :: int

record GenerationOutput =
  OutImageBytes :: bytes
  OutImageURL :: string
  Format :: string

text \<open>
  Errors are values. \<open>Lib_error\<close> is an error produced by a library (net/http, io,
  encoding/json, encoding/base64, image codecs); \<open>Errorf\<close> is \<open>fmt.Errorf\<close> or
  \<open>fmt.Sprintf\<close> with its format string and its arguments, an argument being a string,
  an integer or an error (printed with \<open>%v\<close> or wrapped with \<open>%w\<close>).
\<close>

datatype error = Lib_error string | Errorf string "fmt_arg list"
  and fmt_arg = A_str string | A_int int | A_err error

section \<open>The outside world\<close>

subsection \<open>Wire formats\<close>

record dreamiflyAPIPayload =
  dp_Prompt :: string
  dp_Width :: int
  dp_Height :: int
  dp_Steps :: int
  dp_Seed :: int
  dp_BatchSize :: int
  dp_Model :: string
  dp_Images :: "string list"
  dp_Denoise :: "int \<times> int"

record modelScopeAPIPayload =
  mp_Model :: string
  mp_Prompt :: string
  mp_ImageURL :: string
  mp_Size :: string

record falAIAPIPayload =
  fp_Prompt :: string
  fp_ImageURLs :: "string list"
  fp_Width :: int
  fp_Height :: int
  fp_EnableSafetyChecker :: bool

datatype payload =
    No_payload
  | Dreamifly_json dreamiflyAPIPayload
  | ModelScope_json modelScopeAPIPayload
  | FalAI_json falAIAPIPayload
  | Multipart_image bytes string

record http_request =
  req_method :: string
  req_url :: string
  req_headers :: "(string \<times> string) list"
  req_body :: payload

text \<open>
  A response as the program reads it: the status code and line, the Content-Type header,
  the bytes \<open>io.ReadAll\<close> returns for the body, and the error of reading it (if any).
\<close>

record http_response =
  StatusCode :: int
  Status :: string
  ContentType :: string
  Body :: bytes
  BodyErr :: "error option"

record modelScopeTaskResponse =
  TaskStatus :: string
  OutputImages :: "string list"
  ErrorsMessage :: string

record UploadResponse =
  up_Success :: bool
  up_Message :: string
  up_ImageID :: string
  up_LinksDirect :: string

record DeleteResponse =
  del_Success :: bool
  del_Message :: string

text \<open>A decoded raster image: its bounds and its pixels.\<close>

record image =
  Dx :: int
  Dy :: int
  Pix :: bytes

subsection \<open>Events and the environment\<close>

text \<open>
  Everything the program does to the outside world is an event, appended to a history in
  the order it happens: a request sent with \<open>Client.Do\<close>, a \<open>http.Get\<close>, a
  \<open>time.Sleep\<close> (in seconds) and an \<open>os.WriteFile\<close>. The history also records two
  calls inside the program: each call \<open>provider.Generate(input)\<close> a handler makes, with
  the provider's name and the input handed over, and each call of \<open>DeleteImage\<close>, with
  the image ID. Logging is left out.
\<close>

datatype event =
    Ev_Do http_request
  | Ev_Get string
  | Ev_Sleep nat
  | Ev_WriteFile string bytes
  | Ev_Generate string GenerationInput
  | Ev_DeleteImage string

type_synonym history = "event list"

text \<open>
  The environment answers each call; an answer may depend on everything that happened
  before (the history). It also holds the library functions the repository imports and
  does not define (URL escaping, base64, JSON decoding of each response shape, the image
  codecs), the process environment variables, and the values drawn from the random
  generator and the clock.
\<close>

record env =
  http_do :: "history \<Rightarrow> http_request \<Rightarrow> error + http_response"
  http_get :: "history \<Rightarrow> string \<Rightarrow> error + http_response"
  new_request_error :: "string \<Rightarrow> string \<Rightarrow> error option"
  getenv :: "string \<Rightarrow> string"
  rand_Int63n :: int
  rand_Intn :: int
  now_Format :: string
  url_PathEscape :: "string \<Rightarrow> string"
  url_Values_Encode :: "(string \<times> string list) list \<Rightarrow> string"
  base64_Encode :: "bytes \<Rightarrow> string"
  base64_Decode :: "string \<Rightarrow> error + bytes"
  json_dreamifly :: "bytes \<Rightarrow> error + string"
  json_modelscope_async :: "bytes \<times> error option \<Rightarrow> error + string"
  json_modelscope_task :: "bytes \<Rightarrow> error + modelScopeTaskResponse"
  json_falai :: "bytes \<times> error option \<Rightarrow> error + string list"
  json_upload :: "bytes \<times> error option \<Rightarrow> error + UploadResponse"
  json_delete :: "bytes \<times> error option \<Rightarrow> error + DeleteResponse"
  image_Decode :: "bytes \<Rightarrow> error + image"
  resize_Lanczos3 :: "nat \<Rightarrow> nat \<Rightarrow> image \<Rightarrow> image"
  jpeg_Encode :: "image \<Rightarrow> nat \<Rightarrow> error + bytes"
  webp_Encode :: "image \<Rightarrow> nat \<Rightarrow> error + bytes"

definition client_Do ::
  "env \<Rightarrow> http_request \<Rightarrow> history \<Rightarrow> (error + http_response) \<times> history" where
  "client_Do E req h = (http_do E h req, h @ [Ev_Do req])"

definition http_Get ::
  "env \<Rightarrow> string \<Rightarrow> history \<Rightarrow> (error + http_response) \<times> history" where
  "http_Get E url h = (http_get E h url, h @ [Ev_Get url])"

definition time_Sleep :: "nat \<Rightarrow> history \<Rightarrow> history" where
  "time_Sleep s h = h @ [Ev_Sleep s]"

definition os_WriteFile :: "string \<Rightarrow> bytes \<Rightarrow> history \<Rightarrow> history" where
  "os_WriteFile path b h = h @ [Ev_WriteFile path b]"

definition http_NewRequest ::
  "env \<Rightarrow> string \<Rightarrow> string \<Rightarrow> payload \<Rightarrow> error + http_request" where
  "http_NewRequest E m url b =
     (case new_request_error E m url of
        Some e \<Rightarrow> Inl e
      | None \<Rightarrow> Inr \<lparr>req_method = m, req_url = url, req_headers = [], req_body = b\<rparr>)"

definition Header_Set :: "string \<Rightarrow> string \<Rightarrow> http_request \<Rightarrow> http_request" where
  "Header_Set k v req = req\<lparr>req_headers := AList.update k v (req_headers req)\<rparr>"

text \<open>\<open>io.ReadAll(resp.Body)\<close>: the bytes read, or the error of reading.\<close>

definition io_ReadAll :: "http_response \<Rightarrow> error + bytes" where
  "io_ReadAll resp = (case BodyErr resp of Some e \<Rightarrow> Inl e | None \<Rightarrow> Inr (Body resp))"

subsection \<open>Formatting\<close>

text \<open>The single quote, which format strings of the program contain.\<close>

definition sq :: string where
  "sq = [CHR 0x27]"

fun digits_of :: "nat \<Rightarrow> string" where
  "digits_of n =
     (if n < 10 then [''0123456789'' ! n]
      else digits_of (n div 10) @ [''0123456789'' ! (n mod 10)])"

declare digits_of.simps [simp del]

text \<open>\<open>fmt.Sprintf("%d", i)\<close>\<close>

definition fmt_d :: "int \<Rightarrow> string" where
  "fmt_d i = (if i < 0 then CHR ''-'' # digits_of (nat (- i)) else digits_of (nat i))"

text \<open>\<open>url.Values\<close> with \<open>Add\<close>: each key has the list of its values.\<close>

type_synonym url_Values = "(string \<times> string list) list"

definition Values_Add :: "string \<Rightarrow> string \<Rightarrow> url_Values \<Rightarrow> url_Values" where
  "Values_Add k v m =
     (case map_of m k of None \<Rightarrow> m @ [(k, [v])] | Some vs \<Rightarrow> AList.update k (vs @ [v]) m)"

section \<open>src/providers/utils.go, lines 1 to 27: DownloadFile\<close>

definition DownloadFile ::
  "env \<Rightarrow> string \<Rightarrow> history \<Rightarrow> (error + bytes \<times> string) \<times> history" where
  "DownloadFile E url h =
     (case http_Get E url h of
        (Inl err, h1) \<Rightarrow> (Inl err, h1)
      | (Inr resp, h1) \<Rightarrow>
          if StatusCode resp \<noteq> 200 then (Inl (Errorf ''bad status: %s'' [A_str (Status resp)]), h1)
          else (case io_ReadAll resp of
                  Inl err \<Rightarrow> (Inl err, h1)
                | Inr data \<Rightarrow> (Inr (data, ContentType resp), h1)))"

section \<open>src/providers/pollinations_ai.go\<close>

definition pollinationsAIAPIURL :: string where
  "pollinationsAIAPIURL = ''https://image.pollinations.ai/prompt/''"

definition maxRetries :: nat where
  "maxRetries = 4"

definition retryInterval :: nat where
  "retryInterval = 3"

text \<open>The query parameters, in the order \<open>Generate\<close> adds them (lines 63 to 75).\<close>

definition pollinations_params :: "GenerationInput \<Rightarrow> url_Values" where
  "pollinations_params input =
     (let params = [];
          params = (if ImageURL input \<noteq> [] then Values_Add ''image'' (ImageURL input) params
                    else params);
          params = Values_Add ''model'' (Model input) params;
          params = Values_Add ''width'' (fmt_d (Width input)) params;
          params = Values_Add ''height'' (fmt_d (Height input)) params;
          params = (if Seed input \<noteq> 0 then Values_Add ''seed'' (fmt_d (Seed input)) params
                    else params);
          params = Values_Add ''nologo'' ''true'' params
      in params)"

text \<open>Lines 50 to 92: the request \<open>Generate\<close> builds, or the error it returns before.\<close>

definition pollinations_request ::
  "env \<Rightarrow> string \<Rightarrow> GenerationInput \<Rightarrow> error + http_request" where
  "pollinations_request E APIKey input =
     (let encodedPrompt = url_PathEscape E (Prompt input);
          fullURL = pollinationsAIAPIURL @ encodedPrompt
      in if ImageURL input = [] \<and> Model input = ''kontext''
         then Inl (Errorf (''Pollinations_ai: model '' @ sq @ ''%s'' @ sq @ '' requires an image URL'')
                     [A_str (Model input)])
         else
           let query = url_Values_Encode E (pollinations_params input);
               fullURL = (if query \<noteq> [] then fullURL @ ''?'' @ query else fullURL)
           in case http_NewRequest E ''GET'' fullURL No_payload of
                Inl err \<Rightarrow> Inl (Errorf ''Pollinations_ai: failed to create request: %w'' [A_err err])
              | Inr req \<Rightarrow>
                  Inr (if APIKey \<noteq> [] then Header_Set ''Authorization'' (''Bearer '' @ APIKey) req
                       else req))"

text \<open>
  Lines 94 to 126, the loop \<open>for i := 0; i < maxRetries; i++\<close>. It carries the variable
  \<open>resp\<close> (nil before the first answer); \<open>Inr\<close> is leaving the loop (by \<open>break\<close> or by
  its condition), \<open>Inl\<close> is a \<open>return\<close> from inside it.
\<close>

function pollinations_loop ::
  "env \<Rightarrow> http_request \<Rightarrow> nat \<Rightarrow> http_response option \<Rightarrow> history
     \<Rightarrow> (error + http_response option) \<times> history" where
  "pollinations_loop E req i resp h =
     (if i < maxRetries then
        (case client_Do E req h of
           (Inl err, h1) \<Rightarrow>
             if i < maxRetries - 1
             then pollinations_loop E req (i + 1) None (time_Sleep retryInterval h1)
             else (Inl (Errorf ''Pollinations_ai: failed to call external API after %d attempts: %w''
                          [A_int (int maxRetries), A_err err]), h1)
         | (Inr r, h1) \<Rightarrow>
             if StatusCode r = 200 then (Inr (Some r), h1)
             else
               let err = Errorf ''API returned non-200 status: %d, body: %s''
                           [A_int (StatusCode r), A_str (Body r)]
               in if i < maxRetries - 1
                  then pollinations_loop E req (i + 1) (Some r) (time_Sleep retryInterval h1)
                  else (Inl (Errorf ''Pollinations_ai: giving up after %d attempts: %w''
                               [A_int (int maxRetries), A_err err]), h1))
      else (Inr resp, h))"
  by pat_completeness auto
termination
  by (relation "measure (\<lambda>(E, req, i, resp, h). maxRetries - i)") (auto simp: maxRetries_def)

declare pollinations_loop.simps [simp del]

definition PollinationsAI_Generate ::
  "env \<Rightarrow> string \<Rightarrow> GenerationInput \<Rightarrow> history \<Rightarrow> (error + GenerationOutput) \<times> history" where
  "PollinationsAI_Generate E APIKey input h =
     (case pollinations_request E APIKey input of
        Inl err \<Rightarrow> (Inl err, h)
      | Inr req \<Rightarrow>
          (case pollinations_loop E req 0 None h of
             (Inl err, h1) \<Rightarrow> (Inl err, h1)
           | (Inr None, h1) \<Rightarrow> (Inl (Lib_error ''nil pointer dereference''), h1)
           | (Inr (Some resp), h1) \<Rightarrow>
               (case io_ReadAll resp of
                  Inl err \<Rightarrow> (Inl (Errorf ''Pollinations_ai: failed to read image data: %w'' [A_err err]), h1)
                | Inr imageData \<Rightarrow>
                    (Inr \<lparr>OutImageBytes = imageData, OutImageURL = [],
                          Format = (if ContentType resp = ''image/jpeg'' then ''jpeg'' else ''png'')\<rparr>,
                     h1))))"

section \<open>src/providers/utils.go, lines 29 to 226: the ModelScope provider\<close>

definition modelScopeAPIURL :: string where
  "modelScopeAPIURL = ''https://api-inference.modelscope.cn/v1/images/generations''"

definition modelScopeTaskURL :: string where
  "modelScopeTaskURL = ''https://api-inference.modelscope.cn/v1/tasks/''"

definition maxPollingAttempts :: nat where
  "maxPollingAttempts = 90"

text \<open>\<open>pollingInterval = 5 * time.Second\<close>, in seconds.\<close>

definition pollingInterval :: nat where
  "pollingInterval = 5"

text \<open>
  Lines 161 to 219, the loop \<open>for i := 0; i < maxPollingAttempts; i++\<close> and the return
  after it. A poll answered with a status other than 200 is only logged (\<open>continue\<close>).
\<close>

function modelscope_poll ::
  "env \<Rightarrow> string \<Rightarrow> string \<Rightarrow> nat \<Rightarrow> history \<Rightarrow> (error + GenerationOutput) \<times> history" where
  "modelscope_poll E APIKey taskURL i h =
     (if i < maxPollingAttempts then
        (let h0 = time_Sleep pollingInterval h
         in (case http_NewRequest E ''GET'' taskURL No_payload of
               Inl err \<Rightarrow>
                 (Inl (Errorf ''Modelscope: failed to create polling request: %w'' [A_err err]), h0)
             | Inr pollReq \<Rightarrow>
                 (let pollReq = Header_Set ''Authorization'' (''Bearer '' @ APIKey) pollReq;
                      pollReq = Header_Set ''X-ModelScope-Task-Type'' ''image_generation'' pollReq
                  in (case client_Do E pollReq h0 of
                        (Inl err, h1) \<Rightarrow>
                          (Inl (Errorf ''Modelscope: failed to execute polling request: %w''
                                  [A_err err]), h1)
                      | (Inr pollResp, h1) \<Rightarrow>
                          (if StatusCode pollResp \<noteq> 200
                           then modelscope_poll E APIKey taskURL (i + 1) h1
                           else
                             (case io_ReadAll pollResp of
                                Inl err \<Rightarrow>
                                  (Inl (Errorf ''Modelscope: failed to read polling response body: %w''
                                          [A_err err]), h1)
                              | Inr bodyBytes \<Rightarrow>
                                  (case json_modelscope_task E bodyBytes of
                                     Inl err \<Rightarrow>
                                       (Inl (Errorf ''Modelscope: failed to decode task response: %w, body: %s''
                                               [A_err err, A_str bodyBytes]), h1)
                                   | Inr taskResp \<Rightarrow>
                                       (if TaskStatus taskResp = ''SUCCEED'' then
                                          (case OutputImages taskResp of
                                             imageURL # _ \<Rightarrow>
                                               (case DownloadFile E imageURL h1 of
                                                  (Inl err, h2) \<Rightarrow>
                                                    (Inl (Errorf ''Modelscope: failed to download generated image: %w''
                                                            [A_err err]), h2)
                                                | (Inr (imageData, _), h2) \<Rightarrow>
                                                    (Inr \<lparr>OutImageBytes = imageData, OutImageURL = [],
                                                          Format = []\<rparr>, h2))
                                           | [] \<Rightarrow>
                                               (Inl (Errorf ''Modelscope: task succeeded but no image URL was returned''
                                                       []), h1))
                                        else if TaskStatus taskResp = ''FAILED''
                                                \<or> TaskStatus taskResp = ''CANCELED'' then
                                          (let errMsg = ''Modelscope: task failed or was canceled'';
                                               errMsg = (if ErrorsMessage taskResp \<noteq> []
                                                         then errMsg @ ''. Reason: '' @ ErrorsMessage taskResp
                                                         else errMsg)
                                           in (Inl (Errorf ''%s. Full Response: %s''
                                                      [A_str errMsg, A_str bodyBytes]), h1))
                                        else modelscope_poll E APIKey taskURL (i + 1) h1))))))))
      else (Inl (Errorf ''Modelscope: polling timed out after %d attempts''
                   [A_int (int maxPollingAttempts)]), h))"
  by pat_completeness auto
termination
  by (relation "measure (\<lambda>(E, APIKey, taskURL, i, h). maxPollingAttempts - i)") auto

declare modelscope_poll.simps [simp del]

text \<open>
  \<open>Generate\<close>, lines 106 to 160, then the loop. \<open>json.Marshal\<close> of a struct of strings
  does not fail, so that branch is left out.
\<close>

definition ModelScope_Generate ::
  "env \<Rightarrow> string \<Rightarrow> GenerationInput \<Rightarrow> history \<Rightarrow> (error + GenerationOutput) \<times> history" where
  "ModelScope_Generate E APIKey input h =
     (let size = fmt_d (Width input) @ ''x'' @ fmt_d (Height input);
          payload = \<lparr>mp_Model = Model input, mp_Prompt = Prompt input,
                     mp_ImageURL = ImageURL input, mp_Size = size\<rparr>
      in (case http_NewRequest E ''POST'' modelScopeAPIURL (ModelScope_json payload) of
            Inl err \<Rightarrow> (Inl (Errorf ''Modelscope: failed to create request: %w'' [A_err err]), h)
          | Inr req \<Rightarrow>
              (let req = Header_Set ''Content-Type'' ''application/json'' req;
                   req = Header_Set ''Authorization'' (''Bearer '' @ APIKey) req;
                   req = Header_Set ''X-ModelScope-Async-Mode'' ''true'' req
               in (case client_Do E req h of
                     (Inl err, h1) \<Rightarrow>
                       (Inl (Errorf ''Modelscope: failed to call generation API: %w'' [A_err err]), h1)
                   | (Inr resp, h1) \<Rightarrow>
                       (if StatusCode resp \<noteq> 200
                        then (Inl (Errorf ''Modelscope: generation API returned non-200 status: %d, body: %s''
                                     [A_int (StatusCode resp), A_str (Body resp)]), h1)
                        else
                          (case json_modelscope_async E (Body resp, BodyErr resp) of
                             Inl err \<Rightarrow>
                               (Inl (Errorf ''Modelscope: failed to decode async response: %w''
                                       [A_err err]), h1)
                           | Inr TaskID \<Rightarrow>
                               (if TaskID = []
                                then (Inl (Errorf ''Modelscope: did not receive a task ID'' []), h1)
                                else modelscope_poll E APIKey (modelScopeTaskURL @ TaskID) 0 h1)))))))"

section \<open>src/providers/dreamifly.go\<close>

definition dreamiflyAPIURL :: string where
  "dreamiflyAPIURL = ''https://dreamifly.com/api/generate''"

text \<open>\<open>strings.HasPrefix\<close>, and \<open>strings.Index\<close> for a one-byte separator (\<open>None\<close> is -1).\<close>

definition strings_HasPrefix :: "string \<Rightarrow> string \<Rightarrow> bool" where
  "strings_HasPrefix s p = (take (length p) s = p)"

definition strings_Index :: "string \<Rightarrow> char \<Rightarrow> nat option" where
  "strings_Index s c = (if c \<in> set s then Some (length (takeWhile (\<lambda>x. x \<noteq> c) s)) else None)"

text \<open>Lines 128 to 179: the request \<open>Generate\<close> builds.\<close>

definition dreamifly_request :: "env \<Rightarrow> GenerationInput \<Rightarrow> error + http_request" where
  "dreamifly_request E input =
     (let images = (if ImageBytes input \<noteq> [] then [base64_Encode E (ImageBytes input)] else []);
          steps = (if Steps input = 0 then 25 else Steps input);
          payload = \<lparr>dp_Prompt = Prompt input, dp_Width = Width input, dp_Height = Height input,
                     dp_Steps = steps, dp_Seed = Seed input, dp_BatchSize = 1,
                     dp_Model = Model input, dp_Images = images, dp_Denoise = (7, 10)\<rparr>
      in case http_NewRequest E ''POST'' dreamiflyAPIURL (Dreamifly_json payload) of
           Inl err \<Rightarrow> Inl (Errorf ''dreamifly: failed to create request: %w'' [A_err err])
         | Inr req \<Rightarrow>
             let req = Header_Set ''Content-Type'' ''application/json'' req;
                 req = Header_Set ''User-Agent'' ''Mozilla/5.0 (Macintosh; Intel Mac OS X 10_15_7) AppleWebKit/537.36 (KHTML, like Gecko) Chrome/140.0.0.0 Safari/537.36'' req;
                 req = Header_Set ''Referer'' ''https://dreamifly.com/zh'' req
             in Inr req)"

text \<open>
  Lines 197 to 220: the image bytes taken from the response body. \<open>json_dreamifly\<close> is
  \<open>json.Unmarshal\<close> into \<open>dreamiflyImageResponse\<close>: an error, or the value of its
  \<open>ImageURL\<close> field (empty when the JSON has no "imageUrl").
\<close>

definition dreamifly_image_data :: "env \<Rightarrow> bytes \<Rightarrow> error + bytes" where
  "dreamifly_image_data E respBody =
     (case json_dreamifly E respBody of
        Inr dataURL \<Rightarrow>
          if dataURL \<noteq> [] then
            if strings_HasPrefix dataURL ''data:image/'' then
              (case strings_Index dataURL (CHR '','') of
                 Some commaIndex \<Rightarrow>
                   (case base64_Decode E (drop (commaIndex + 1) dataURL) of
                      Inl err \<Rightarrow> Inl (Errorf ''dreamifly: failed to decode base64 image data: %w''
                                        [A_err err])
                    | Inr imageData \<Rightarrow> Inr imageData)
               | None \<Rightarrow> Inl (Errorf ''dreamifly: invalid data URL format'' []))
            else Inl (Errorf ''dreamifly: unexpected image URL format'' [])
          else Inr respBody
      | Inl _ \<Rightarrow> Inr respBody)"

definition Dreamifly_Generate ::
  "env \<Rightarrow> GenerationInput \<Rightarrow> history \<Rightarrow> (error + GenerationOutput) \<times> history" where
  "Dreamifly_Generate E input h =
     (case dreamifly_request E input of
        Inl err \<Rightarrow> (Inl err, h)
      | Inr req \<Rightarrow>
          (case client_Do E req h of
             (Inl err, h1) \<Rightarrow>
               (Inl (Errorf ''dreamifly: failed to call external API: %w'' [A_err err]), h1)
           | (Inr resp, h1) \<Rightarrow>
               if StatusCode resp \<noteq> 200
               then (Inl (Errorf ''dreamifly: API returned non-200 status: %d, body: %s''
                            [A_int (StatusCode resp), A_str (Body resp)]), h1)
               else
                 (case io_ReadAll resp of
                    Inl err \<Rightarrow>
                      (Inl (Errorf ''dreamifly: failed to read response body: %w'' [A_err err]), h1)
                  | Inr respBody \<Rightarrow>
                      (case dreamifly_image_data E respBody of
                         Inl err \<Rightarrow> (Inl err, h1)
                       | Inr imageData \<Rightarrow>
                           (Inr \<lparr>OutImageBytes = imageData, OutImageURL = [], Format = []\<rparr>, h1)))))"

section \<open>src/config/config.go, lines 125 to 263: the Fal.ai provider\<close>

definition falAIAPIURL :: string where
  "falAIAPIURL = ''https://fal.run/fal-ai/bytedance/seedream/v4/edit''"

definition FalAI_Generate ::
  "env \<Rightarrow> string \<Rightarrow> GenerationInput \<Rightarrow> history \<Rightarrow> (error + GenerationOutput) \<times> history" where
  "FalAI_Generate E APIKey input h =
     (if ImageURL input = [] then (Inl (Errorf ''fal_ai: image URL is required'' []), h)
      else
        (let payload = \<lparr>fp_Prompt = Prompt input, fp_ImageURLs = [ImageURL input],
                        fp_Width = Width input, fp_Height = Height input,
                        fp_EnableSafetyChecker = False\<rparr>
         in (case http_NewRequest E ''POST'' falAIAPIURL (FalAI_json payload) of
               Inl err \<Rightarrow> (Inl (Errorf ''fal_ai: failed to create request: %w'' [A_err err]), h)
             | Inr req \<Rightarrow>
                 (let req = Header_Set ''Content-Type'' ''application/json'' req;
                      req = Header_Set ''Authorization'' (''Key '' @ APIKey) req
                  in (case client_Do E req h of
                        (Inl err, h1) \<Rightarrow>
                          (Inl (Errorf ''fal_ai: failed to call external API: %w'' [A_err err]), h1)
                      | (Inr resp, h1) \<Rightarrow>
                          (if StatusCode resp \<noteq> 200
                           then (Inl (Errorf ''fal_ai: API returned non-200 status: %d, body: %s''
                                        [A_int (StatusCode resp), A_str (Body resp)]), h1)
                           else
                             (case json_falai E (Body resp, BodyErr resp) of
                                Inl err \<Rightarrow>
                                  (Inl (Errorf ''fal_ai: failed to decode response: %w'' [A_err err]), h1)
                              | Inr [] \<Rightarrow>
                                  (Inl (Errorf ''fal_ai: no images returned in response'' []), h1)
                              | Inr (imageURL # _) \<Rightarrow>
                                  (case DownloadFile E imageURL h1 of
                                     (Inl err, h2) \<Rightarrow>
                                       (Inl (Errorf ''fal_ai: failed to download generated image: %w''
                                               [A_err err]), h2)
                                   | (Inr (imageData, _), h2) \<Rightarrow>
                                       (Inr \<lparr>OutImageBytes = imageData, OutImageURL = [],
                                             Format = []\<rparr>, h2)))))))))"

section \<open>src/imagehost/nodeimage.go, lines 1 to 123: the NodeImage client\<close>

definition uploadAPIURL :: string where
  "uploadAPIURL = ''https://api.nodeimage.com/api/upload''"

definition deleteAPIURL :: string where
  "deleteAPIURL = ''https://api.nodeimage.com/api/v1/delete/''"

text \<open>
  \<open>UploadImage\<close>. Writing the multipart form into a memory buffer does not fail; the
  random boundary of the Content-Type header is left out.
\<close>

definition UploadImage ::
  "env \<Rightarrow> string \<Rightarrow> bytes \<Rightarrow> string \<Rightarrow> history \<Rightarrow> (error + UploadResponse) \<times> history" where
  "UploadImage E APIKey imageBytes filename h =
     (case http_NewRequest E ''POST'' uploadAPIURL (Multipart_image imageBytes filename) of
        Inl err \<Rightarrow> (Inl (Errorf ''failed to create upload request: %w'' [A_err err]), h)
      | Inr req \<Rightarrow>
          (let req = Header_Set ''Content-Type'' ''multipart/form-data'' req;
               req = Header_Set ''X-API-Key'' APIKey req
           in (case client_Do E req h of
                 (Inl err, h1) \<Rightarrow>
                   (Inl (Errorf ''failed to execute upload request: %w'' [A_err err]), h1)
               | (Inr resp, h1) \<Rightarrow>
                   (if StatusCode resp \<noteq> 200
                    then (Inl (Errorf ''nodeimage API returned non-200 status: %d, body: %s''
                                 [A_int (StatusCode resp), A_str (Body resp)]), h1)
                    else
                      (case json_upload E (Body resp, BodyErr resp) of
                         Inl err \<Rightarrow>
                           (Inl (Errorf ''failed to decode upload response: %w'' [A_err err]), h1)
                       | Inr uploadResp \<Rightarrow>
                           (if \<not> up_Success uploadResp
                            then (Inl (Errorf ''nodeimage API reported an error: %s''
                                         [A_str (up_Message uploadResp)]), h1)
                            else (Inr uploadResp, h1)))))))"

definition DeleteImage ::
  "env \<Rightarrow> string \<Rightarrow> string \<Rightarrow> history \<Rightarrow> error option \<times> history" where
  "DeleteImage E APIKey imageID h0 =
     (let h = h0 @ [Ev_DeleteImage imageID];
          deleteURL = deleteAPIURL @ imageID
      in (case http_NewRequest E ''DELETE'' deleteURL No_payload of
            Inl err \<Rightarrow> (Some (Errorf ''failed to create delete request: %w'' [A_err err]), h)
          | Inr req \<Rightarrow>
              (let req = Header_Set ''X-API-Key'' APIKey req
               in (case client_Do E req h of
                     (Inl err, h1) \<Rightarrow>
                       (Some (Errorf ''failed to execute delete request: %w'' [A_err err]), h1)
                   | (Inr resp, h1) \<Rightarrow>
                       (if StatusCode resp \<noteq> 200
                        then (Some (Errorf ''nodeimage API returned non-200 status for delete: %d, body: %s''
                                      [A_int (StatusCode resp), A_str (Body resp)]), h1)
                        else
                          (case json_delete E (Body resp, BodyErr resp) of
                             Inl err \<Rightarrow>
                               (Some (Errorf ''failed to decode delete response: %w'' [A_err err]), h1)
                           | Inr deleteResp \<Rightarrow>
                               (if \<not> del_Success deleteResp
                                then (Some (Errorf ''nodeimage API reported an error on delete: %s''
                                              [A_str (del_Message deleteResp)]), h1)
                                else (None, h1))))))))"

section \<open>The providers behind the ImageProvider interface\<close>

text \<open>
  The four implementations \<open>initializeProviders\<close> registers, each with the API key its
  constructor stores, and the interface methods by case on the implementation.
\<close>

datatype provider = Dreamifly | FalAI string | ModelScope string | PollinationsAI string

fun GetName :: "provider \<Rightarrow> string" where
  "GetName Dreamifly = ''Dreamifly''"
| "GetName (FalAI k) = ''fal_ai''"
| "GetName (ModelScope k) = ''Modelscope''"
| "GetName (PollinationsAI k) = ''Pollinations_ai''"

fun RequiresImageURL :: "provider \<Rightarrow> bool" where
  "RequiresImageURL Dreamifly = False"
| "RequiresImageURL (FalAI k) = True"
| "RequiresImageURL (ModelScope k) = True"
| "RequiresImageURL (PollinationsAI k) = True"

definition dreamiflyModels :: "ModelCapabilities list" where
  "dreamiflyModels =
     [\<lparr>Name = ''Flux-Kontext'', SupportedParams = [''steps'', ''seed'', ''image''], MaxWidth = 1920, MaxHeight = 1920\<rparr>,
      \<lparr>Name = ''Qwen-Image-Edit'', SupportedParams = [''steps'', ''seed'', ''image''], MaxWidth = 1920, MaxHeight = 1920\<rparr>,
      \<lparr>Name = ''Wai-SDXL-V150'', SupportedParams = [''steps'', ''seed''], MaxWidth = 1920, MaxHeight = 1920\<rparr>,
      \<lparr>Name = ''Flux-Krea'', SupportedParams = [''steps'', ''seed''], MaxWidth = 1920, MaxHeight = 1920\<rparr>,
      \<lparr>Name = ''HiDream-full-fp8'', SupportedParams = [''steps'', ''seed''], MaxWidth = 1920, MaxHeight = 1920\<rparr>,
      \<lparr>Name = ''Qwen-Image'', SupportedParams = [''steps'', ''seed''], MaxWidth = 1920, MaxHeight = 1920\<rparr>]"

definition falAIModels :: "ModelCapabilities list" where
  "falAIModels =
     [\<lparr>Name = ''bytedance/seedream/v4/edit'', SupportedParams = [''seed'', ''image''], MaxWidth = 4096, MaxHeight = 4096\<rparr>]"

definition modelScopeModels :: "ModelCapabilities list" where
  "modelScopeModels =
     [\<lparr>Name = ''Qwen/Qwen-Image'', SupportedParams = [''seed''], MaxWidth = 2048, MaxHeight = 2048\<rparr>,
      \<lparr>Name = ''Qwen/Qwen-Image-Edit'', SupportedParams = [''seed'', ''image''], MaxWidth = 2048, MaxHeight = 2048\<rparr>]"

definition pollinationsAIModels :: "ModelCapabilities list" where
  "pollinationsAIModels =
     [\<lparr>Name = ''flux'', SupportedParams = [''seed''], MaxWidth = 1024, MaxHeight = 1024\<rparr>,
      \<lparr>Name = ''kontext'', SupportedParams = [''seed'', ''image''], MaxWidth = 1024, MaxHeight = 1024\<rparr>]"

fun GetModels :: "provider \<Rightarrow> ModelCapabilities list" where
  "GetModels Dreamifly = dreamiflyModels"
| "GetModels (FalAI k) = falAIModels"
| "GetModels (ModelScope k) = modelScopeModels"
| "GetModels (PollinationsAI k) = pollinationsAIModels"

fun Generate ::
  "env \<Rightarrow> provider \<Rightarrow> GenerationInput \<Rightarrow> history \<Rightarrow> (error + GenerationOutput) \<times> history" where
  "Generate E Dreamifly input h = Dreamifly_Generate E input h"
| "Generate E (FalAI k) input h = FalAI_Generate E k input h"
| "Generate E (ModelScope k) input h = ModelScope_Generate E k input h"
| "Generate E (PollinationsAI k) input h = PollinationsAI_Generate E k input h"

section \<open>src/unnamed/part_007: ParseModelName, and the library functions the handlers use\<close>

text \<open>\<open>strings.SplitN(s, "/", 2)\<close>: split at the first slash, if there is one.\<close>

definition SplitN2 :: "string \<Rightarrow> string list" where
  "SplitN2 s =
     (if CHR ''/'' \<in> set s
      then [takeWhile (\<lambda>c. c \<noteq> CHR ''/'') s, tl (dropWhile (\<lambda>c. c \<noteq> CHR ''/'') s)]
      else [s])"

definition ParseModelName :: "string \<Rightarrow> error + string \<times> string" where
  "ParseModelName fullModelName =
     (case SplitN2 fullModelName of
        [p0, p1] \<Rightarrow>
          if p0 = [] \<or> p1 = []
          then Inl (Errorf (''invalid model format. Expected '' @ sq @ ''provider/model_name'' @ sq
                            @ '', got '' @ sq @ ''%s'' @ sq) [A_str fullModelName])
          else Inr (p0, p1)
      | _ \<Rightarrow> Inl (Errorf (''invalid model format. Expected '' @ sq @ ''provider/model_name'' @ sq
                           @ '', got '' @ sq @ ''%s'' @ sq) [A_str fullModelName]))"

text \<open>
  \<open>strconv.ParseInt(s, 10, 64)\<close>, which is also \<open>strconv.Atoi\<close> where \<open>int\<close> has 64 bits:
  the value and whether the error is nil. A syntax error gives 0; a value out of range
  gives the nearest bound, with an error.
\<close>

definition is_digit :: "char \<Rightarrow> bool" where
  "is_digit c = (c \<in> set ''0123456789'')"

definition digits_value :: "string \<Rightarrow> nat" where
  "digits_value ds = foldl (\<lambda>a c. 10 * a + (of_char c - 48)) 0 ds"

definition strconv_ParseInt :: "string \<Rightarrow> int \<times> bool" where
  "strconv_ParseInt s =
     (let neg = (s \<noteq> [] \<and> hd s = CHR ''-'');
          ds = (if s \<noteq> [] \<and> (hd s = CHR ''-'' \<or> hd s = CHR ''+'') then tl s else s)
      in if ds = [] \<or> \<not> list_all is_digit ds then (0, False)
         else
           let un = digits_value ds
           in if \<not> neg \<and> un \<ge> 2 ^ 63 then (2 ^ 63 - 1, False)
              else if neg \<and> un > 2 ^ 63 then (- (2 ^ 63), False)
              else (if neg then - int un else int un, True))"

definition strconv_Atoi :: "string \<Rightarrow> int \<times> bool" where
  "strconv_Atoi s = strconv_ParseInt s"

text \<open>The conversion \<open>uint(i)\<close> of a 64-bit \<open>int\<close>.\<close>

definition uint_of :: "int \<Rightarrow> nat" where
  "uint_of i = nat (i mod 2 ^ 64)"

definition strings_TrimSuffix :: "string \<Rightarrow> string \<Rightarrow> string" where
  "strings_TrimSuffix s suffix =
     (if length suffix \<le> length s \<and> drop (length s - length suffix) s = suffix
      then take (length s - length suffix) s else s)"

text \<open>
  \<open>strings.ToLower\<close> on ASCII letters. The handlers only compare its result with
  "false", and no character outside ASCII has one of these letters as its lower case.
\<close>

definition strings_ToLower :: "string \<Rightarrow> string" where
  "strings_ToLower s =
     map (\<lambda>c. case map_of (zip ''ABCDEFGHIJKLMNOPQRSTUVWXYZ'' ''abcdefghijklmnopqrstuvwxyz'') c of
                Some l \<Rightarrow> l
              | None \<Rightarrow> c) s"

text \<open>\<open>fmt.Sprintf("%03d", i)\<close>: at least three characters, padded with zeros after the sign.\<close>

definition fmt_03d :: "int \<Rightarrow> string" where
  "fmt_03d i =
     (if i < 0
      then CHR ''-'' # replicate (2 - length (digits_of (nat (- i)))) (CHR ''0'') @ digits_of (nat (- i))
      else replicate (3 - length (digits_of (nat i))) (CHR ''0'') @ digits_of (nat i))"

section \<open>src/imagehost/nodeimage.go, lines 125 to 887: the handlers\<close>

subsection \<open>The image pipeline (lines 582 to 649)\<close>

definition processImage :: "env \<Rightarrow> bytes \<Rightarrow> nat \<Rightarrow> error + bytes" where
  "processImage E imageBytes sizeLimit =
     (case image_Decode E imageBytes of
        Inl err \<Rightarrow> Inl (Errorf ''failed to decode image: %w'' [A_err err])
      | Inr img \<Rightarrow>
          let width = Dx img; height = Dy img;
              img = (if uint_of width > sizeLimit \<or> uint_of height > sizeLimit
                     then (if width > height then resize_Lanczos3 E sizeLimit 0 img
                           else resize_Lanczos3 E 0 sizeLimit img)
                     else img)
          in (case jpeg_Encode E img 85 of
                Inl err \<Rightarrow> Inl (Errorf ''failed to encode image to JPEG: %w'' [A_err err])
              | Inr buf \<Rightarrow> Inr buf))"

definition convertToWebP :: "env \<Rightarrow> bytes \<Rightarrow> error + bytes" where
  "convertToWebP E imageBytes =
     (case image_Decode E imageBytes of
        Inl err \<Rightarrow> Inl (Errorf ''failed to decode image for WebP conversion: %w'' [A_err err])
      | Inr img \<Rightarrow>
          (case webp_Encode E img 80 of
             Inl err \<Rightarrow> Inl (Errorf ''failed to encode image to WebP: %w'' [A_err err])
           | Inr buf \<Rightarrow> Inr buf))"

subsection \<open>Globals, requests and responses\<close>

text \<open>
  The two package variables: the registry (a map from provider name to provider) and the
  image host client (\<open>None\<close> is nil, otherwise the API key the client holds).
\<close>

record globals =
  providerRegistry :: "string \<Rightarrow> provider option"
  imageHostClient :: "string option"

text \<open>Lines 213 to 249.\<close>

definition initializeProviders :: "env \<Rightarrow> string \<Rightarrow> provider option" where
  "initializeProviders E =
     (let registry = Map.empty;
          registry = registry(GetName Dreamifly \<mapsto> Dreamifly);
          falAIAPIKey = getenv E ''FAL_API_KEY'';
          registry = (if falAIAPIKey \<noteq> []
                      then registry(GetName (FalAI falAIAPIKey) \<mapsto> FalAI falAIAPIKey)
                      else registry);
          modelScopeAPIKey = getenv E ''MODELSCOPE_API_KEY'';
          registry = (if modelScopeAPIKey \<noteq> []
                      then registry(GetName (ModelScope modelScopeAPIKey) \<mapsto> ModelScope modelScopeAPIKey)
                      else registry);
          pollinationsAPIKey = getenv E ''POLLINATIONS_AI_API_KEY'';
          registry = registry(GetName (PollinationsAI pollinationsAPIKey)
                                \<mapsto> PollinationsAI pollinationsAPIKey)
      in registry)"

text \<open>
  What \<open>handleGenerate\<close> reads of its request: the method, whether the multipart form
  parsed, the form values, and the uploaded file "image" (missing, unreadable, or its
  content and file name).
\<close>

datatype form_file = File_missing | File_failed | File_ok bytes string

record form_request =
  Method :: string
  MultipartOK :: bool
  FormValues :: "(string \<times> string) list"
  ImageFile :: form_file

definition FormValue :: "form_request \<Rightarrow> string \<Rightarrow> string" where
  "FormValue r k = (case map_of (FormValues r) k of Some v \<Rightarrow> v | None \<Rightarrow> [])"

record APIGenerateRequest =
  api_Prompt :: string
  api_ImageURL :: string
  api_Width :: int
  api_Height :: int
  api_Model :: string
  api_Seed :: int
  api_Steps :: int

text \<open>What \<open>handleAPIGenerate\<close> reads: the method and the decoded JSON body (or its error).\<close>

record json_request =
  jr_Method :: string
  jr_Body :: "error + APIGenerateRequest"

text \<open>
  What a handler writes: \<open>http.Error\<close> with a message and a status; the image itself with
  its file name; the JSON object with "imageUrl"; and for the v1 endpoint a JSON error
  with its status code, or the JSON success with the image URL.
\<close>

datatype response =
    Http_Error error int
  | Image_Webp string bytes
  | Json_ImageUrl string
  | Api_Error int error
  | Api_Success string

subsection \<open>handleGenerate (lines 352 to 580)\<close>

text \<open>Lines 377 to 404: the input built from the form.\<close>

definition form_input :: "env \<Rightarrow> form_request \<Rightarrow> string \<Rightarrow> GenerationInput" where
  "form_input E r modelName =
     (let width = fst (strconv_Atoi (FormValue r ''width''));
          height = fst (strconv_Atoi (FormValue r ''height''));
          width = (if width = 0 then 1024 else width);
          height = (if height = 0 then 1024 else height);
          input = \<lparr>Prompt = FormValue r ''prompt'', ImageBytes = [], ImageURL = [],
                   Width = width, Height = height, Model = modelName,
                   Seed = rand_Int63n E, Steps = 0\<rparr>;
          stepsStr = FormValue r ''steps'';
          input = (if stepsStr \<noteq> []
                   then (case strconv_Atoi stepsStr of
                           (steps, True) \<Rightarrow> input\<lparr>Steps := steps\<rparr>
                         | (_, False) \<Rightarrow> input)
                   else input);
          seedStr = FormValue r ''seed'';
          input = (if seedStr \<noteq> []
                   then (case strconv_ParseInt seedStr of
                           (seed, True) \<Rightarrow> input\<lparr>Seed := seed\<rparr>
                         | (_, False) \<Rightarrow> input)
                   else input)
      in input)"

text \<open>
  Lines 406 to 435: the image provided, from the uploaded file or else from the URL; an
  error response, or the bytes with the file name.
\<close>

definition form_image ::
  "env \<Rightarrow> form_request \<Rightarrow> history \<Rightarrow> (response + bytes \<times> string) \<times> history" where
  "form_image E r h =
     (case ImageFile r of
        File_failed \<Rightarrow>
          (Inl (Http_Error (Errorf ''Could not retrieve image from form'' []) 400), h)
      | File_ok content filename \<Rightarrow> (Inr (content, filename), h)
      | File_missing \<Rightarrow>
          let imageURL = FormValue r ''imageUrl''
          in if imageURL \<noteq> [] then
               (case DownloadFile E imageURL h of
                  (Inl err, h1) \<Rightarrow>
                    (Inl (Http_Error (Errorf ''Failed to download image from URL: %v'' [A_err err]) 400),
                     h1)
                | (Inr (downloadedBytes, _), h1) \<Rightarrow> (Inr (downloadedBytes, ''image.png''), h1))
             else (Inr ([], ''image.png''), h))"

text \<open>
  Lines 437 to 483: processing the image and, for a provider that requires a URL, staging
  it on the image host. The result is an error response, or the input as it stands after
  this step together with the deferred deletion: \<open>None\<close> when no deferred call was
  registered, otherwise the value \<open>tempImageID\<close> has.
\<close>

definition stage_image ::
  "env \<Rightarrow> globals \<Rightarrow> form_request \<Rightarrow> provider \<Rightarrow> GenerationInput \<Rightarrow> bytes \<Rightarrow> string \<Rightarrow> history
     \<Rightarrow> (response + GenerationInput \<times> string option) \<times> history" where
  "stage_image E G r provider input providedImageBytes providedImageFilename h =
     (if providedImageBytes \<noteq> [] then
        let inputSizeLimit = fst (strconv_Atoi (FormValue r ''input_size_limit''));
            inputSizeLimit = (if inputSizeLimit = 0 then 1024 else inputSizeLimit)
        in (case processImage E providedImageBytes (uint_of inputSizeLimit) of
             Inl err \<Rightarrow>
               (Inl (Http_Error (Errorf ''Failed to process image: %v'' [A_err err]) 500), h)
           | Inr processedBytes \<Rightarrow>
               let providedImageBytes = processedBytes;
                   providedImageFilename = strings_TrimSuffix providedImageFilename ''.png'' @ ''.jpg'';
                   input = input\<lparr>ImageBytes := providedImageBytes\<rparr>
               in if RequiresImageURL provider then
                    (case imageHostClient G of
                       None \<Rightarrow>
                         (Inl (Http_Error (Errorf ''Image hosting is not configured, cannot process image for this provider'' []) 500),
                          h)
                     | Some APIKey \<Rightarrow>
                         (case UploadImage E APIKey providedImageBytes providedImageFilename h of
                            (Inl err, h1) \<Rightarrow>
                              (Inl (Http_Error (Errorf ''Failed to upload temporary image: %v'' [A_err err]) 500),
                               h1)
                          | (Inr uploadResp, h1) \<Rightarrow>
                              (Inr (input\<lparr>ImageURL := up_LinksDirect uploadResp\<rparr>,
                                    Some (up_ImageID uploadResp)), h1)))
                  else (Inr (input, None), h))
      else (Inr (input, None), h))"

text \<open>
  Lines 485 to 580: the check for the models that require an image, the call of the
  provider, the conversion to WebP with its fallback, the local copy and the delivery.
\<close>

definition generate_and_deliver ::
  "env \<Rightarrow> globals \<Rightarrow> string \<Rightarrow> string \<Rightarrow> provider \<Rightarrow> GenerationInput \<Rightarrow> history
     \<Rightarrow> response \<times> history" where
  "generate_and_deliver E G fullModelName providerName provider input h =
     (if (fullModelName = ''Dreamifly/Flux-Kontext'' \<or> fullModelName = ''Dreamifly/Qwen-Image-Edit'')
         \<and> ImageBytes input = []
      then (Http_Error (Errorf (''Model '' @ sq @ ''%s'' @ sq @ '' requires an image'')
                          [A_str fullModelName]) 400, h)
      else
        (case Generate E provider input (h @ [Ev_Generate providerName input]) of
          (Inl err, h1) \<Rightarrow>
            (Http_Error (Errorf (''Error from provider '' @ sq @ ''%s'' @ sq @ '': %v'')
                           [A_str providerName, A_err err]) 500, h1)
        | (Inr output, h1) \<Rightarrow>
            let finalImageBytes = OutImageBytes output
            in if finalImageBytes = []
               then (Http_Error (Errorf ''Provider did not return any image data'' []) 500, h1)
               else
                 let webpBytes = (case convertToWebP E finalImageBytes of
                                    Inl err \<Rightarrow> finalImageBytes
                                  | Inr webpBytes \<Rightarrow> webpBytes);
                     finalFilename = now_Format E @ ''_'' @ fmt_03d (rand_Intn E) @ ''.webp'';
                     localFilepath = ''images/'' @ finalFilename;
                     h2 = (if strings_ToLower (getenv E ''SAVE_LOCAL_COPY'') \<noteq> ''false''
                           then os_WriteFile localFilepath webpBytes h1 else h1);
                     uploadToHost = (strings_ToLower (getenv E ''UPLOAD_TO_IMAGE_HOST'') \<noteq> ''false'')
                 in if \<not> uploadToHost then (Image_Webp finalFilename webpBytes, h2)
                    else
                      (case imageHostClient G of
                         None \<Rightarrow>
                           (Http_Error (Errorf ''Image hosting is not configured, cannot return final image URL. Set UPLOAD_TO_IMAGE_HOST=false to return image data directly.'' []) 500,
                            h2)
                       | Some APIKey \<Rightarrow>
                           (case UploadImage E APIKey webpBytes localFilepath h2 of
                              (Inl err, h3) \<Rightarrow>
                                (Http_Error (Errorf ''Failed to upload final image: %v'' [A_err err]) 500,
                                 h3)
                            | (Inr finalUpload, h3) \<Rightarrow>
                                (Json_ImageUrl (up_LinksDirect finalUpload), h3)))))"

text \<open>
  The deferred function of lines 474 to 481, run when the handler returns. The client is
  not nil here: it was checked before the deferred call was registered.
\<close>

definition run_deferred :: "env \<Rightarrow> globals \<Rightarrow> string option \<Rightarrow> history \<Rightarrow> history" where
  "run_deferred E G deferred h =
     (case deferred of
        None \<Rightarrow> h
      | Some tempImageID \<Rightarrow>
          if tempImageID \<noteq> [] then
            (case imageHostClient G of
               Some APIKey \<Rightarrow> snd (DeleteImage E APIKey tempImageID h)
             | None \<Rightarrow> h)
          else h)"

text \<open>
  Lines 352 to 483, all that comes before the call of the provider: an error response, or
  the full model name, the provider's name, the provider, the input and the deferred
  deletion.
\<close>

definition prepare_request ::
  "env \<Rightarrow> globals \<Rightarrow> form_request \<Rightarrow> history
     \<Rightarrow> (response + string \<times> string \<times> provider \<times> GenerationInput \<times> string option) \<times> history" where
  "prepare_request E G r h =
     (if Method r \<noteq> ''POST''
      then (Inl (Http_Error (Errorf ''Only POST method is allowed'' []) 405), h)
      else if \<not> MultipartOK r
      then (Inl (Http_Error (Errorf ''Could not parse multipart form'' []) 400), h)
      else
        let fullModelName = FormValue r ''model''
        in (case ParseModelName fullModelName of
             Inl err \<Rightarrow> (Inl (Http_Error err 400), h)
           | Inr (providerName, modelName) \<Rightarrow>
               (case providerRegistry G providerName of
                  None \<Rightarrow>
                    (Inl (Http_Error (Errorf (''Provider '' @ sq @ ''%s'' @ sq @ '' not found or not configured'')
                                        [A_str providerName]) 400), h)
                | Some provider \<Rightarrow>
                    let input = form_input E r modelName
                    in (case form_image E r h of
                         (Inl resp, h1) \<Rightarrow> (Inl resp, h1)
                       | (Inr (providedImageBytes, providedImageFilename), h1) \<Rightarrow>
                           (case stage_image E G r provider input providedImageBytes
                                   providedImageFilename h1 of
                              (Inl resp, h2) \<Rightarrow> (Inl resp, h2)
                            | (Inr (input, deferred), h2) \<Rightarrow>
                                (Inr (fullModelName, providerName, provider, input, deferred), h2))))))"

definition handleGenerate ::
  "env \<Rightarrow> globals \<Rightarrow> form_request \<Rightarrow> history \<Rightarrow> response \<times> history" where
  "handleGenerate E G r h =
     (case prepare_request E G r h of
        (Inl resp, h2) \<Rightarrow> (resp, h2)
      | (Inr (fullModelName, providerName, provider, input, deferred), h2) \<Rightarrow>
          (case generate_and_deliver E G fullModelName providerName provider input h2 of
             (resp, h3) \<Rightarrow> (resp, run_deferred E G deferred h3)))"

subsection \<open>handleAPIGenerate (lines 723 to 887)\<close>

text \<open>Lines 759 to 778.\<close>

definition api_input :: "env \<Rightarrow> APIGenerateRequest \<Rightarrow> string \<Rightarrow> GenerationInput" where
  "api_input E apiReq modelName =
     (let width = api_Width apiReq; height = api_Height apiReq;
          width = (if width = 0 then 1024 else width);
          height = (if height = 0 then 1024 else height);
          input = \<lparr>Prompt = api_Prompt apiReq, ImageBytes = [], ImageURL = [],
                   Width = width, Height = height, Model = modelName,
                   Seed = api_Seed apiReq, Steps = api_Steps apiReq\<rparr>;
          input = (if Seed input = 0 then input\<lparr>Seed := rand_Int63n E\<rparr> else input)
      in input)"

text \<open>Lines 780 to 821: download, processing and staging; nothing is deferred.\<close>

definition api_image ::
  "env \<Rightarrow> globals \<Rightarrow> APIGenerateRequest \<Rightarrow> provider \<Rightarrow> GenerationInput \<Rightarrow> history
     \<Rightarrow> (response + GenerationInput) \<times> history" where
  "api_image E G apiReq provider input h =
     (case (if api_ImageURL apiReq \<noteq> [] then
              (case DownloadFile E (api_ImageURL apiReq) h of
                 (Inl err, h1) \<Rightarrow>
                   (Inl (Api_Error 400 (Errorf ''Failed to download image from URL: %v'' [A_err err])),
                    h1)
               | (Inr (downloadedBytes, _), h1) \<Rightarrow> (Inr downloadedBytes, h1))
            else (Inr [], h)) of
        (Inl resp, h1) \<Rightarrow> (Inl resp, h1)
      | (Inr providedImageBytes, h1) \<Rightarrow>
          if providedImageBytes \<noteq> [] then
            (case processImage E providedImageBytes 1024 of
               Inl err \<Rightarrow>
                 (Inl (Api_Error 500 (Errorf ''Failed to process image: %v'' [A_err err])), h1)
             | Inr processedBytes \<Rightarrow>
                 let input = input\<lparr>ImageBytes := processedBytes\<rparr>
                 in (if RequiresImageURL provider then
                      (case imageHostClient G of
                         None \<Rightarrow>
                           (Inl (Api_Error 500 (Errorf ''Image hosting is not configured, cannot process image for this provider'' [])),
                            h1)
                       | Some APIKey \<Rightarrow>
                           (case UploadImage E APIKey processedBytes ''api_input.jpg'' h1 of
                              (Inl err, h2) \<Rightarrow>
                                (Inl (Api_Error 500 (Errorf ''Failed to upload temporary image: %v'' [A_err err])),
                                 h2)
                            | (Inr uploadResp, h2) \<Rightarrow>
                                (Inr (input\<lparr>ImageURL := up_LinksDirect uploadResp\<rparr>), h2)))
                    else (Inr input, h1)))
          else (Inr input, h1))"

text \<open>Lines 823 to 887.\<close>

definition api_generate_and_deliver ::
  "env \<Rightarrow> globals \<Rightarrow> APIGenerateRequest \<Rightarrow> string \<Rightarrow> provider \<Rightarrow> GenerationInput \<Rightarrow> history
     \<Rightarrow> response \<times> history" where
  "api_generate_and_deliver E G apiReq providerName provider input h =
     (if (api_Model apiReq = ''Dreamifly/Flux-Kontext'' \<or> api_Model apiReq = ''Dreamifly/Qwen-Image-Edit'')
         \<and> api_ImageURL apiReq = []
      then (Api_Error 400 (Errorf (''Model '' @ sq @ ''%s'' @ sq @ '' requires an '' @ sq @ ''image_url'' @ sq)
                             [A_str (api_Model apiReq)]), h)
      else
        (case Generate E provider input (h @ [Ev_Generate providerName input]) of
          (Inl err, h1) \<Rightarrow>
            (Api_Error 500 (Errorf (''Error from provider '' @ sq @ ''%s'' @ sq @ '': %v'')
                              [A_str providerName, A_err err]), h1)
        | (Inr output, h1) \<Rightarrow>
            if OutImageBytes output = []
            then (Api_Error 500 (Errorf ''Provider did not return any image data'' []), h1)
            else
              let webpBytes = (case convertToWebP E (OutImageBytes output) of
                                 Inl err \<Rightarrow> OutImageBytes output
                               | Inr webpBytes \<Rightarrow> webpBytes);
                  finalFilename = now_Format E @ ''_'' @ fmt_03d (rand_Intn E) @ ''.webp'';
                  localFilepath = ''images/'' @ finalFilename;
                  h2 = os_WriteFile localFilepath webpBytes h1
              in (case imageHostClient G of
                    None \<Rightarrow>
                      (Api_Error 500 (Errorf ''Image hosting is not configured, cannot return final image URL.'' []),
                       h2)
                  | Some APIKey \<Rightarrow>
                      (case UploadImage E APIKey webpBytes localFilepath h2 of
                         (Inl err, h3) \<Rightarrow>
                           (Api_Error 500 (Errorf ''Failed to upload final image: %v'' [A_err err]), h3)
                       | (Inr finalUpload, h3) \<Rightarrow>
                           (Api_Success (up_LinksDirect finalUpload), h3)))))"

definition handleAPIGenerate ::
  "env \<Rightarrow> globals \<Rightarrow> json_request \<Rightarrow> history \<Rightarrow> response \<times> history" where
  "handleAPIGenerate E G r h =
     (if jr_Method r \<noteq> ''POST''
      then (Http_Error (Errorf ''Only POST method is allowed'' []) 405, h)
      else
        (case jr_Body r of
          Inl err \<Rightarrow> (Http_Error (Errorf ''Invalid JSON request body'' []) 400, h)
        | Inr apiReq \<Rightarrow>
            if api_Prompt apiReq = [] \<or> api_Model apiReq = []
            then (Api_Error 400 (Errorf (sq @ ''prompt'' @ sq @ '' and '' @ sq @ ''model'' @ sq
                                         @ '' fields are required'') []), h)
            else
              (case ParseModelName (api_Model apiReq) of
                Inl err \<Rightarrow> (Api_Error 400 err, h)
              | Inr (providerName, modelName) \<Rightarrow>
                  (case providerRegistry G providerName of
                     None \<Rightarrow>
                       (Api_Error 400 (Errorf (''Provider '' @ sq @ ''%s'' @ sq @ '' not found or not configured'')
                                         [A_str providerName]), h)
                   | Some provider \<Rightarrow>
                       (case api_image E G apiReq provider (api_input E apiReq modelName) h of
                          (Inl resp, h1) \<Rightarrow> (resp, h1)
                        | (Inr input, h1) \<Rightarrow>
                            api_generate_and_deliver E G apiReq providerName provider input h1)))))"

section \<open>Notions used to state the properties\<close>

subsection \<open>The retry loop of Pollinations.ai\<close>

text \<open>
  The history of \<open>k\<close> failed attempts, each followed by the backoff sleep; the answer the
  environment gives to attempt \<open>j\<close> (counted from 0) of a call that started at history
  \<open>h\<close>; whether an answer is a 200 response; the failure an answer that is not one stands
  for (the transport error, or the error the loop builds from a non-200 response); and
  an error that wraps another.
\<close>

definition attempts_hist :: "http_request \<Rightarrow> nat \<Rightarrow> history" where
  "attempts_hist req k = concat (replicate k [Ev_Do req, Ev_Sleep retryInterval])"

definition attempt_reply :: "env \<Rightarrow> http_request \<Rightarrow> history \<Rightarrow> nat \<Rightarrow> error + http_response" where
  "attempt_reply E req h j = http_do E (h @ attempts_hist req j) req"

definition is_200 :: "error + http_response \<Rightarrow> bool" where
  "is_200 r = (case r of Inl _ \<Rightarrow> False | Inr resp \<Rightarrow> StatusCode resp = 200)"

definition failure_of :: "error + http_response \<Rightarrow> error" where
  "failure_of r =
     (case r of
        Inl err \<Rightarrow> err
      | Inr resp \<Rightarrow> Errorf ''API returned non-200 status: %d, body: %s''
                      [A_int (StatusCode resp), A_str (Body resp)])"

definition wraps :: "error \<Rightarrow> error \<Rightarrow> bool" where
  "wraps e err = (case e of Lib_error _ \<Rightarrow> False | Errorf f args \<Rightarrow> A_err err \<in> set args)"

subsection \<open>The polling loop of ModelScope\<close>







subsection \<open>Reading a history\<close>

text \<open>
  The events a provider call or an upload may add (requests, downloads, sleeps); a
  history that extends another by such events only; the provider calls recorded in a
  history, in order; and the image IDs \<open>DeleteImage\<close> was called with, in order.
\<close>

fun network_event :: "event \<Rightarrow> bool" where
  "network_event (Ev_Do req) = True"
| "network_event (Ev_Get url) = True"
| "network_event (Ev_Sleep n) = True"
| "network_event (Ev_WriteFile path b) = False"
| "network_event (Ev_Generate n i) = False"
| "network_event (Ev_DeleteImage x) = False"

definition net_ext :: "history \<Rightarrow> history \<Rightarrow> bool" where
  "net_ext h h' = (\<exists>t. h' = h @ t \<and> list_all network_event t)"

fun calls :: "history \<Rightarrow> (string \<times> GenerationInput) list" where
  "calls [] = []"
| "calls (Ev_Generate n i # h) = (n, i) # calls h"
| "calls (ev # h) = calls h"

fun deletes :: "history \<Rightarrow> string list" where
  "deletes [] = []"
| "deletes (Ev_DeleteImage x # h) = x # deletes h"
| "deletes (ev # h) = deletes h"

subsection \<open>Concrete environments and inputs\<close>

text \<open>
  An environment in which every network call fails, every decoder rejects its input and
  the library functions are simple stand-ins; the concrete environments below change
  what they need.
\<close>

definition plain_encode :: "url_Values \<Rightarrow> string" where
  "plain_encode m = concat (map (\<lambda>(k, vs). concat (map (\<lambda>v. k @ ''='' @ v @ ''&'') vs)) m)"

definition base_env :: env where
  "base_env =
     \<lparr>http_do = (\<lambda>h req. Inl (Lib_error ''connection refused'')),
      http_get = (\<lambda>h url. Inl (Lib_error ''connection refused'')),
      new_request_error = (\<lambda>m url. None),
      getenv = (\<lambda>k. []),
      rand_Int63n = 123456,
      rand_Intn = 7,
      now_Format = ''2026_0101_120000'',
      url_PathEscape = (\<lambda>s. s),
      url_Values_Encode = plain_encode,
      base64_Encode = (\<lambda>b. b),
      base64_Decode = (\<lambda>s. Inl (Lib_error ''illegal base64 data'')),
      json_dreamifly = (\<lambda>b. Inl (Lib_error ''invalid character'')),
      json_modelscope_async = (\<lambda>b. Inl (Lib_error ''invalid character'')),
      json_modelscope_task = (\<lambda>b. Inl (Lib_error ''invalid character'')),
      json_falai = (\<lambda>b. Inl (Lib_error ''invalid character'')),
      json_upload = (\<lambda>b. Inl (Lib_error ''invalid character'')),
      json_delete = (\<lambda>b. Inl (Lib_error ''invalid character'')),
      image_Decode = (\<lambda>b. Inl (Lib_error ''image: unknown format'')),
      resize_Lanczos3 = (\<lambda>w h img. img),
      jpeg_Encode = (\<lambda>img q. Inl (Lib_error ''jpeg: unsupported'')),
      webp_Encode = (\<lambda>img q. Inl (Lib_error ''webp: unsupported''))\<rparr>"

definition cat_input :: GenerationInput where
  "cat_input =
     \<lparr>Prompt = ''cat'', ImageBytes = [], ImageURL = [], Width = 1024, Height = 1024,
      Model = ''flux'', Seed = 42, Steps = 0\<rparr>"

definition ok_response :: "bytes \<Rightarrow> http_response" where
  "ok_response b =
     \<lparr>StatusCode = 200, Status = ''200 OK'', ContentType = ''image/jpeg'', Body = b, BodyErr = None\<rparr>"

text \<open>The first attempt times out, every later one answers 200.\<close>

definition flaky_env :: env where
  "flaky_env =
     base_env\<lparr>http_do := (\<lambda>h req. if h = [] then Inl (Lib_error ''timeout'')
                                   else Inr (ok_response ''JFIF''))\<rparr>"

definition cat_request :: http_request where
  "cat_request =
     \<lparr>req_method = ''GET'',
      req_url = ''https://image.pollinations.ai/prompt/cat?model=flux&width=1024&height=1024&seed=42&nologo=true&'',
      req_headers = [], req_body = No_payload\<rparr>"



text \<open>Dreamifly answers 200 with a body that is not JSON at all.\<close>

definition html_env :: env where
  "html_env = base_env\<lparr>http_do := (\<lambda>h req. Inr (ok_response ''<html>busy</html>''))\<rparr>"

definition cat_dreamifly_request :: http_request where
  "cat_dreamifly_request =
     \<lparr>req_method = ''POST'', req_url = ''https://dreamifly.com/api/generate'',
      req_headers =
        [(''Content-Type'', ''application/json''),
         (''User-Agent'', ''Mozilla/5.0 (Macintosh; Intel Mac OS X 10_15_7) AppleWebKit/537.36 (KHTML, like Gecko) Chrome/140.0.0.0 Safari/537.36''),
         (''Referer'', ''https://dreamifly.com/zh'')],
      req_body = Dreamifly_json
        \<lparr>dp_Prompt = ''cat'', dp_Width = 1024, dp_Height = 1024, dp_Steps = 25, dp_Seed = 42,
         dp_BatchSize = 1, dp_Model = ''flux'', dp_Images = [], dp_Denoise = (7, 10)\<rparr>\<rparr>"

text \<open>
  A studio setting: every request is answered 200, the image host accepts uploads and
  deletions, an uploaded PNG decodes and is re-encoded as JPEG, and what the provider
  returns is not a decodable image. Then the same with the provider unreachable, an
  environment with a ModelScope key in which the network is down, and one that returns
  the image inline.
\<close>

definition studio_env :: env where
  "studio_env =
     base_env\<lparr>http_do := (\<lambda>h req. Inr (ok_response ''PNGOUT'')),
              http_get := (\<lambda>h url. Inr (ok_response ''PNGDATA'')),
              json_upload := (\<lambda>b. Inr \<lparr>up_Success = True, up_Message = [], up_ImageID = ''abc'',
                                       up_LinksDirect = ''https://cdn.nodeimage.com/i/abc.jpg''\<rparr>),
              json_delete := (\<lambda>b. Inr \<lparr>del_Success = True, del_Message = []\<rparr>),
              image_Decode := (\<lambda>b. if b = ''PNGDATA'' then Inr \<lparr>Dx = 640, Dy = 480, Pix = ''pixels''\<rparr>
                                    else Inl (Lib_error ''image: unknown format'')),
              jpeg_Encode := (\<lambda>img q. Inr ''JPEGDATA'')\<rparr>"

definition studio_globals :: globals where
  "studio_globals = \<lparr>providerRegistry = initializeProviders studio_env, imageHostClient = Some ''host-key''\<rparr>"

definition kontext_form :: form_request where
  "kontext_form =
     \<lparr>Method = ''POST'', MultipartOK = True,
      FormValues = [(''model'', ''Pollinations_ai/kontext''), (''prompt'', ''cat''),
                    (''width'', ''4096''), (''height'', ''4096''), (''seed'', ''42'')],
      ImageFile = File_ok ''PNGDATA'' ''photo.png''\<rparr>"

definition kontext_api :: json_request where
  "kontext_api =
     \<lparr>jr_Method = ''POST'',
      jr_Body = Inr \<lparr>api_Prompt = ''cat'', api_ImageURL = ''https://example.com/photo.png'',
                     api_Width = 4096, api_Height = 4096, api_Model = ''Pollinations_ai/kontext'',
                     api_Seed = 42, api_Steps = 0\<rparr>\<rparr>"

definition outage_env :: env where
  "outage_env =
     studio_env\<lparr>http_do := (\<lambda>h req. if req_url req = uploadAPIURL then Inr (ok_response ''ok'')
                                    else Inl (Lib_error ''connection refused''))\<rparr>"

definition keys_env :: env where
  "keys_env = base_env\<lparr>getenv := (\<lambda>k. if k = ''MODELSCOPE_API_KEY'' then ''ms-key'' else [])\<rparr>"

definition keys_globals :: globals where
  "keys_globals = \<lparr>providerRegistry = initializeProviders keys_env, imageHostClient = Some ''host-key''\<rparr>"

definition edit_form :: form_request where
  "edit_form =
     \<lparr>Method = ''POST'', MultipartOK = True,
      FormValues = [(''model'', ''Modelscope/Qwen/Qwen-Image-Edit''), (''prompt'', ''cat'')],
      ImageFile = File_missing\<rparr>"

definition inline_env :: env where
  "inline_env = studio_env\<lparr>getenv := (\<lambda>k. if k = ''UPLOAD_TO_IMAGE_HOST'' then ''False'' else [])\<rparr>"

definition krea_form :: form_request where
  "krea_form =
     \<lparr>Method = ''POST'', MultipartOK = True,
      FormValues = [(''model'', ''Dreamifly/Flux-Krea''), (''prompt'', ''cat'')],
      ImageFile = File_missing\<rparr>"

definition bare_input :: GenerationInput where
  "bare_input =
     \<lparr>Prompt = ''cat'', ImageBytes = [], ImageURL = [], Width = 4096, Height = 4096,
      Model = ''kontext'', Seed = 42, Steps = 0\<rparr>"

definition staged_input :: GenerationInput where
  "staged_input =
     \<lparr>Prompt = ''cat'', ImageBytes = ''JPEGDATA'', ImageURL = ''https://cdn.nodeimage.com/i/abc.jpg'',
      Width = 4096, Height = 4096, Model = ''kontext'', Seed = 42, Steps = 0\<rparr>"

definition studio_upload :: UploadResponse where
  "studio_upload =
     \<lparr>up_Success = True, up_Message = [], up_ImageID = ''abc'',
      up_LinksDirect = ''https://cdn.nodeimage.com/i/abc.jpg''\<rparr>"

definition upload_request :: "bytes \<Rightarrow> string \<Rightarrow> http_request" where
  "upload_request b fn =
     \<lparr>req_method = ''POST'', req_url = ''https://api.nodeimage.com/api/upload'',
      req_headers = [(''Content-Type'', ''multipart/form-data''), (''X-API-Key'', ''host-key'')],
      req_body = Multipart_image b fn\<rparr>"

definition delete_request :: "string \<Rightarrow> http_request" where
  "delete_request x =
     \<lparr>req_method = ''DELETE'', req_url = ''https://api.nodeimage.com/api/v1/delete/'' @ x,
      req_headers = [(''X-API-Key'', ''host-key'')], req_body = No_payload\<rparr>"

definition kontext_request :: http_request where
  "kontext_request =
     \<lparr>req_method = ''GET'',
      req_url = ''https://image.pollinations.ai/prompt/cat?image=https://cdn.nodeimage.com/i/abc.jpg&model=kontext&width=4096&height=4096&seed=42&nologo=true&'',
      req_headers = [], req_body = No_payload\<rparr>"

definition outage_error :: error where
  "outage_error =
     Errorf (''Error from provider '' @ sq @ ''%s'' @ sq @ '': %v'')
       [A_str ''Pollinations_ai'',
        A_err (Errorf ''Pollinations_ai: failed to call external API after %d attempts: %w''
                 [A_int 4, A_err (Lib_error ''connection refused'')])]"

definition edit_input :: GenerationInput where
  "edit_input =
     \<lparr>Prompt = ''cat'', ImageBytes = [], ImageURL = [], Width = 1024, Height = 1024,
      Model = ''Qwen/Qwen-Image-Edit'', Seed = 123456, Steps = 0\<rparr>"

definition edit_submit_request :: http_request where
  "edit_submit_request =
     \<lparr>req_method = ''POST'',
      req_url = ''https://api-inference.modelscope.cn/v1/images/generations'',
      req_headers = [(''Content-Type'', ''application/json''), (''Authorization'', ''Bearer ms-key''),
                     (''X-ModelScope-Async-Mode'', ''true'')],
      req_body = ModelScope_json
        \<lparr>mp_Model = ''Qwen/Qwen-Image-Edit'', mp_Prompt = ''cat'', mp_ImageURL = [],
         mp_Size = ''1024x1024''\<rparr>\<rparr>"

definition krea_input :: GenerationInput where
  "krea_input =
     \<lparr>Prompt = ''cat'', ImageBytes = [], ImageURL = [], Width = 1024, Height = 1024,
      Model = ''Flux-Krea'', Seed = 123456, Steps = 0\<rparr>"

definition krea_request :: http_request where
  "krea_request =
     \<lparr>req_method = ''POST'', req_url = ''https://dreamifly.com/api/generate'',
      req_headers =
        [(''Content-Type'', ''application/json''),
         (''User-Agent'', ''Mozilla/5.0 (Macintosh; Intel Mac OS X 10_15_7) AppleWebKit/537.36 (KHTML, like Gecko) Chrome/140.0.0.0 Safari/537.36''),
         (''Referer'', ''https://dreamifly.com/zh'')],
      req_body = Dreamifly_json
        \<lparr>dp_Prompt = ''cat'', dp_Width = 1024, dp_Height = 1024, dp_Steps = 25, dp_Seed = 123456,
         dp_BatchSize = 1, dp_Model = ''Flux-Krea'', dp_Images = [], dp_Denoise = (7, 10)\<rparr>\<rparr>"



definition nolink_env :: env where
  "nolink_env =
     studio_env\<lparr>json_upload := (\<lambda>b. Inr \<lparr>up_Success = True, up_Message = [], up_ImageID = ''abc'',
                                         up_LinksDirect = []\<rparr>)\<rparr>"

section \<open>Proofs\<close>

subsection \<open>Pollinations.ai\<close>

lemma attempts_hist_Suc:
  "attempts_hist req (Suc k) = attempts_hist req k @ [Ev_Do req, Ev_Sleep retryInterval]"
  unfolding attempts_hist_def by (induction k) auto

lemma pollinations_loop_from:
  assumes "i < maxRetries"
    and "pollinations_loop E req i resp0 (h @ attempts_hist req i) = (r, h')"
    and "\<forall>j<i. \<not> is_200 (attempt_reply E req h j)"
  shows "\<exists>k<maxRetries. h' = h @ attempts_hist req k @ [Ev_Do req]
           \<and> (\<forall>j<k. \<not> is_200 (attempt_reply E req h j))
           \<and> (if is_200 (attempt_reply E req h k)
               then \<exists>resp. attempt_reply E req h k = Inr resp \<and> r = Inr (Some resp)
               else k = maxRetries - 1
                    \<and> (\<exists>e. r = Inl e \<and> wraps e (failure_of (attempt_reply E req h k))))"
  using assms
proof (induction "maxRetries - i" arbitrary: i resp0)
  case 0
  then show ?case by simp
next
  case (Suc n)
  let ?rep = "attempt_reply E req h i"
  have step: "client_Do E req (h @ attempts_hist req i) = (?rep, h @ attempts_hist req i @ [Ev_Do req])"
    by (simp add: client_Do_def attempt_reply_def)
  show ?case
  proof (cases "is_200 ?rep")
    case True
    then obtain resp where rr: "?rep = Inr resp" "StatusCode resp = 200"
      by (auto simp: is_200_def split: sum.splits)
    from Suc.prems(2) have "r = Inr (Some resp)" "h' = h @ attempts_hist req i @ [Ev_Do req]"
      using Suc.prems(1) step rr by (subst (asm) pollinations_loop.simps, simp)+
    with True rr Suc.prems show ?thesis by (intro exI[of _ i]) auto
  next
    case False
    show ?thesis
    proof (cases "i < maxRetries - 1")
      case True
      have next_h: "time_Sleep retryInterval (h @ attempts_hist req i @ [Ev_Do req])
                      = h @ attempts_hist req (Suc i)"
        by (simp add: time_Sleep_def attempts_hist_Suc)
      from Suc.prems(2) obtain resp1 where
        rec: "pollinations_loop E req (Suc i) resp1 (h @ attempts_hist req (Suc i)) = (r, h')"
        using Suc.prems(1) step False True next_h
        by (subst (asm) pollinations_loop.simps) (auto simp: is_200_def split: sum.splits)
      have all: "\<forall>j<Suc i. \<not> is_200 (attempt_reply E req h j)"
        using Suc.prems(3) False by (auto simp: less_Suc_eq)
      have "n = maxRetries - Suc i" using Suc.hyps(2) by simp
      from Suc.hyps(1)[OF this _ rec all] True show ?thesis by simp
    next
      case last: False
      then have ieq: "i = maxRetries - 1" using Suc.prems(1) by simp
      from Suc.prems(2) have "h' = h @ attempts_hist req i @ [Ev_Do req]"
         "\<exists>e. r = Inl e \<and> wraps e (failure_of ?rep)"
        using Suc.prems(1) step False last
        by (subst (asm) pollinations_loop.simps,
            auto simp: is_200_def wraps_def failure_of_def split: sum.splits)+
      with False ieq Suc.prems show ?thesis by (intro exI[of _ i]) auto
    qed
  qed
qed

text \<open>
  C6. A Pollinations.ai \<open>Generate\<close> call that gets as far as sending its request makes
  \<open>k + 1\<close> attempts for some \<open>k < 4\<close> (so at most 4), sleeps 3 seconds after each of the
  first \<open>k\<close>, which all failed (transport error or non-200 status), and nothing else. If
  the last attempt got a 200 response the loop stopped there and the result is that
  response's body (or the error of reading it); otherwise it was the fourth attempt and
  the result is an error that wraps the failure of that last attempt.
\<close>

theorem pollinations_retry_policy:
  assumes "pollinations_request E APIKey input = Inr req"
    and "PollinationsAI_Generate E APIKey input h = (r, h')"
  shows "\<exists>k<maxRetries. h' = h @ attempts_hist req k @ [Ev_Do req]
           \<and> (\<forall>j<k. \<not> is_200 (attempt_reply E req h j))
           \<and> (if is_200 (attempt_reply E req h k)
               then \<exists>resp. attempt_reply E req h k = Inr resp
                      \<and> (case io_ReadAll resp of
                            Inl err \<Rightarrow> r = Inl (Errorf ''Pollinations_ai: failed to read image data: %w'' [A_err err])
                          | Inr data \<Rightarrow> \<exists>out. r = Inr out \<and> OutImageBytes out = data)
               else k = maxRetries - 1
                    \<and> (\<exists>e. r = Inl e \<and> wraps e (failure_of (attempt_reply E req h k))))"
proof -
  obtain r0 where loop: "pollinations_loop E req 0 None h = (r0, h')"
    using assms by (auto simp: PollinationsAI_Generate_def split: sum.splits prod.splits option.splits)
  have "0 < maxRetries" by (simp add: maxRetries_def)
  from pollinations_loop_from[OF this, of E req None h r0 h'] loop
  obtain k where k: "k < maxRetries" "h' = h @ attempts_hist req k @ [Ev_Do req]"
      "\<forall>j<k. \<not> is_200 (attempt_reply E req h j)"
      "if is_200 (attempt_reply E req h k)
       then \<exists>resp. attempt_reply E req h k = Inr resp \<and> r0 = Inr (Some resp)
       else k = maxRetries - 1
            \<and> (\<exists>e. r0 = Inl e \<and> wraps e (failure_of (attempt_reply E req h k)))"
    by (auto simp: attempts_hist_def)
  have "if is_200 (attempt_reply E req h k)
        then \<exists>resp. attempt_reply E req h k = Inr resp
               \<and> (case io_ReadAll resp of
                     Inl err \<Rightarrow> r = Inl (Errorf ''Pollinations_ai: failed to read image data: %w'' [A_err err])
                   | Inr data \<Rightarrow> \<exists>out. r = Inr out \<and> OutImageBytes out = data)
        else k = maxRetries - 1
             \<and> (\<exists>e. r = Inl e \<and> wraps e (failure_of (attempt_reply E req h k)))"
    using k(4) assms loop
    by (auto simp: PollinationsAI_Generate_def split: sum.splits prod.splits option.splits if_splits)
  with k(1-3) show ?thesis by blast
qed

lemma cat_req: "pollinations_request flaky_env [] cat_input = Inr cat_request"
  by (simp add: pollinations_request_def flaky_env_def base_env_def cat_input_def cat_request_def
      pollinations_params_def Values_Add_def fmt_d_def digits_of.simps plain_encode_def
      http_NewRequest_def pollinationsAIAPIURL_def)

lemma flaky_do: "http_do flaky_env h req = (if h = [] then Inl (Lib_error ''timeout'') else Inr (ok_response ''JFIF''))"
  by (simp add: flaky_env_def base_env_def)

lemma cat_gen: "PollinationsAI_Generate flaky_env [] cat_input [] =
     (Inr \<lparr>OutImageBytes = ''JFIF'', OutImageURL = [], Format = ''jpeg''\<rparr>,
      [Ev_Do cat_request, Ev_Sleep 3, Ev_Do cat_request])"
  unfolding PollinationsAI_Generate_def cat_req
  by (simp add: pollinations_loop.simps client_Do_def time_Sleep_def flaky_do
       maxRetries_def retryInterval_def ok_response_def io_ReadAll_def)

text \<open>
  A run of C6: the first attempt times out, the second is answered 200; two attempts, one
  sleep of 3 seconds between them, and the body is the image.
\<close>

theorem pollinations_retry_policy_witness:
  "pollinations_request flaky_env [] cat_input = Inr cat_request
   \<and> PollinationsAI_Generate flaky_env [] cat_input [] =
     (Inr \<lparr>OutImageBytes = ''JFIF'', OutImageURL = [], Format = ''jpeg''\<rparr>,
      [Ev_Do cat_request, Ev_Sleep 3, Ev_Do cat_request])
   \<and> (\<exists>k<maxRetries.
         [Ev_Do cat_request, Ev_Sleep 3, Ev_Do cat_request] = [] @ attempts_hist cat_request k @ [Ev_Do cat_request]
       \<and> (\<forall>j<k. \<not> is_200 (attempt_reply flaky_env cat_request [] j))
       \<and> (if is_200 (attempt_reply flaky_env cat_request [] k)
           then \<exists>resp. attempt_reply flaky_env cat_request [] k = Inr resp
                  \<and> (case io_ReadAll resp of
                        Inl err \<Rightarrow> Inr \<lparr>OutImageBytes = ''JFIF'', OutImageURL = [], Format = ''jpeg''\<rparr>
                                     = Inl (Errorf ''Pollinations_ai: failed to read image data: %w'' [A_err err])
                      | Inr data \<Rightarrow> \<exists>out. Inr \<lparr>OutImageBytes = ''JFIF'', OutImageURL = [], Format = ''jpeg''\<rparr>
                                            = (Inr out :: error + GenerationOutput) \<and> OutImageBytes out = data)
           else k = maxRetries - 1
                \<and> (\<exists>e. Inr \<lparr>OutImageBytes = ''JFIF'', OutImageURL = [], Format = ''jpeg''\<rparr> = Inl e
                       \<and> wraps e (failure_of (attempt_reply flaky_env cat_request [] k)))))"
  by (intro conjI cat_req cat_gen pollinations_retry_policy[OF cat_req cat_gen])

text \<open>
  C9. In the request a Pollinations.ai \<open>Generate\<close> call builds, the URL is the prompt
  path followed by the encoded query parameters; when \<open>Seed\<close> is 0 the parameters have
  no "seed" key at all (they are the image, model, width, height and nologo ones only, as
  for an input whose seed was never set, the zero value of the field), and when \<open>Seed\<close>
  is not 0 the "seed" key carries exactly that value, printed in decimal.
\<close>

theorem pollinations_seed_param:
  assumes "pollinations_request E APIKey input = Inr req"
  shows "req_url req = pollinationsAIAPIURL @ url_PathEscape E (Prompt input)
                         @ (let query = url_Values_Encode E (pollinations_params input)
                            in if query \<noteq> [] then ''?'' @ query else [])
       \<and> (if Seed input = 0
          then map_of (pollinations_params input) ''seed'' = None
             \<and> pollinations_params input =
                 (if ImageURL input \<noteq> [] then [(''image'', [ImageURL input])] else [])
                 @ [(''model'', [Model input]), (''width'', [fmt_d (Width input)]),
                    (''height'', [fmt_d (Height input)]), (''nologo'', [''true''])]
          else map_of (pollinations_params input) ''seed'' = Some [fmt_d (Seed input)])"
proof -
  have url: "req_url req = pollinationsAIAPIURL @ url_PathEscape E (Prompt input)
                         @ (let query = url_Values_Encode E (pollinations_params input)
                            in if query \<noteq> [] then ''?'' @ query else [])"
    using assms
    by (auto simp: pollinations_request_def http_NewRequest_def Header_Set_def Let_def
             split: if_splits option.splits)
  have seed: "if Seed input = 0
          then map_of (pollinations_params input) ''seed'' = None
             \<and> pollinations_params input =
                 (if ImageURL input \<noteq> [] then [(''image'', [ImageURL input])] else [])
                 @ [(''model'', [Model input]), (''width'', [fmt_d (Width input)]),
                    (''height'', [fmt_d (Height input)]), (''nologo'', [''true''])]
          else map_of (pollinations_params input) ''seed'' = Some [fmt_d (Seed input)]"
    by (simp add: pollinations_params_def Values_Add_def)
  from url seed show ?thesis by blast
qed

lemma cat_params: "pollinations_params cat_input = [(''model'', [''flux'']), (''width'', [''1024'']),
  (''height'', [''1024'']), (''seed'', [''42'']), (''nologo'', [''true''])]"
  by (simp add: cat_input_def pollinations_params_def Values_Add_def fmt_d_def digits_of.simps)

text \<open>
  A run of C9: the input with seed 42 gives a request whose query has "seed=42".
\<close>

theorem pollinations_seed_param_witness:
  "pollinations_request flaky_env [] cat_input = Inr cat_request
   \<and> Seed cat_input = 42
   \<and> map_of (pollinations_params cat_input) ''seed'' = Some [''42'']
   \<and> req_url cat_request =
       ''https://image.pollinations.ai/prompt/cat?model=flux&width=1024&height=1024&seed=42&nologo=true&''"
  using pollinations_seed_param[OF cat_req] cat_req
  by (simp add: cat_input_def fmt_d_def digits_of.simps cat_request_def)

subsection \<open>ModelScope\<close>

text \<open>After a successful submission \<open>Generate\<close> is the polling loop, started at attempt 0.\<close>

lemma ModelScope_Generate_submitted:
  assumes "http_NewRequest E ''POST'' modelScopeAPIURL
               (ModelScope_json \<lparr>mp_Model = Model input, mp_Prompt = Prompt input,
                                 mp_ImageURL = ImageURL input,
                                 mp_Size = fmt_d (Width input) @ ''x'' @ fmt_d (Height input)\<rparr>) = Inr req0"
    and "req = Header_Set ''X-ModelScope-Async-Mode'' ''true''
                 (Header_Set ''Authorization'' (''Bearer '' @ APIKey)
                    (Header_Set ''Content-Type'' ''application/json'' req0))"
    and "http_do E h req = Inr resp"
    and "StatusCode resp = 200"
    and "json_modelscope_async E (Body resp, BodyErr resp) = Inr TaskID"
    and "TaskID \<noteq> []"
  shows "ModelScope_Generate E APIKey input h
       = modelscope_poll E APIKey (modelScopeTaskURL @ TaskID) 0 (h @ [Ev_Do req])"
  using assms by (simp add: ModelScope_Generate_def Let_def client_Do_def)







lemma poll_no_request:
  assumes "new_request_error E ''GET'' taskURL = Some e"
  shows "modelscope_poll E APIKey taskURL 0 h
       = (Inl (Errorf ''Modelscope: failed to create polling request: %w'' [A_err e]),
          h @ [Ev_Sleep pollingInterval])"
  using assms
  by (subst modelscope_poll.simps)
     (simp add: http_NewRequest_def time_Sleep_def maxPollingAttempts_def)








subsection \<open>Dreamifly\<close>

text \<open>
  C10. When Dreamifly answers a \<open>Generate\<close> call with status 200 and a body that can be
  read, and the body does not decode as JSON to a non-empty "imageUrl", the call succeeds
  and returns the body's bytes as the image, whatever they are. An output that is not the
  raw body arises in one way only: the body decodes to a non-empty "imageUrl" that starts
  with "data:image/" and has a comma, and the output is the base64 decoding of what
  follows the first comma.
\<close>

theorem dreamifly_raw_body:
  assumes "dreamifly_request E input = Inr req"
    and "http_do E h req = Inr resp"
    and "StatusCode resp = 200"
    and "io_ReadAll resp = Inr respBody"
  shows "((\<forall>u. json_dreamifly E respBody = Inr u \<longrightarrow> u = [])
            \<longrightarrow> Dreamifly_Generate E input h =
                  (Inr \<lparr>OutImageBytes = respBody, OutImageURL = [], Format = []\<rparr>, h @ [Ev_Do req]))
       \<and> (\<forall>out h'. Dreamifly_Generate E input h = (Inr out, h') \<and> OutImageBytes out \<noteq> respBody
            \<longrightarrow> (\<exists>u i. json_dreamifly E respBody = Inr u \<and> u \<noteq> []
                        \<and> strings_HasPrefix u ''data:image/''
                        \<and> strings_Index u (CHR '','') = Some i
                        \<and> base64_Decode E (drop (i + 1) u) = Inr (OutImageBytes out)))"
proof -
  have run: "Dreamifly_Generate E input h =
       (case dreamifly_image_data E respBody of
          Inl err \<Rightarrow> (Inl err, h @ [Ev_Do req])
        | Inr imageData \<Rightarrow> (Inr \<lparr>OutImageBytes = imageData, OutImageURL = [], Format = []\<rparr>, h @ [Ev_Do req]))"
    using assms by (simp add: Dreamifly_Generate_def client_Do_def)
  have raw: "(\<forall>u. json_dreamifly E respBody = Inr u \<longrightarrow> u = [])
               \<longrightarrow> dreamifly_image_data E respBody = Inr respBody"
    by (auto simp: dreamifly_image_data_def split: sum.splits)
  have dec: "\<And>d. dreamifly_image_data E respBody = Inr d \<Longrightarrow> d \<noteq> respBody \<Longrightarrow>
         (\<exists>u i. json_dreamifly E respBody = Inr u \<and> u \<noteq> []
                        \<and> strings_HasPrefix u ''data:image/''
                        \<and> strings_Index u (CHR '','') = Some i
                        \<and> base64_Decode E (drop (i + 1) u) = Inr d)"
    by (auto simp: dreamifly_image_data_def split: sum.splits if_splits option.splits)
  show ?thesis
  proof (intro conjI allI impI)
    assume "\<forall>u. json_dreamifly E respBody = Inr u \<longrightarrow> u = []"
    with raw run show "Dreamifly_Generate E input h =
                  (Inr \<lparr>OutImageBytes = respBody, OutImageURL = [], Format = []\<rparr>, h @ [Ev_Do req])"
      by simp
  next
    fix out h'
    assume a: "Dreamifly_Generate E input h = (Inr out, h') \<and> OutImageBytes out \<noteq> respBody"
    then obtain d where "dreamifly_image_data E respBody = Inr d" "OutImageBytes out = d"
      using run by (auto split: sum.splits)
    with dec[of d] a show "\<exists>u i. json_dreamifly E respBody = Inr u \<and> u \<noteq> []
                        \<and> strings_HasPrefix u ''data:image/''
                        \<and> strings_Index u (CHR '','') = Some i
                        \<and> base64_Decode E (drop (i + 1) u) = Inr (OutImageBytes out)"
      by auto
  qed
qed

lemma html_req: "dreamifly_request html_env cat_input = Inr cat_dreamifly_request"
  by (simp add: dreamifly_request_def html_env_def base_env_def cat_input_def http_NewRequest_def
        Header_Set_def dreamiflyAPIURL_def cat_dreamifly_request_def)

text \<open>
  A run of C10: Dreamifly answers 200 with an HTML page, and the page is returned as the
  image.
\<close>

theorem dreamifly_raw_body_witness:
  "dreamifly_request html_env cat_input = Inr cat_dreamifly_request
   \<and> http_do html_env [] cat_dreamifly_request = Inr (ok_response ''<html>busy</html>'')
   \<and> StatusCode (ok_response ''<html>busy</html>'') = 200
   \<and> io_ReadAll (ok_response ''<html>busy</html>'') = Inr ''<html>busy</html>''
   \<and> Dreamifly_Generate html_env cat_input [] =
        (Inr \<lparr>OutImageBytes = ''<html>busy</html>'', OutImageURL = [], Format = []\<rparr>,
         [Ev_Do cat_dreamifly_request])"
proof -
  have a: "http_do html_env [] cat_dreamifly_request = Inr (ok_response ''<html>busy</html>'')"
    by (simp add: html_env_def base_env_def)
  have b: "StatusCode (ok_response ''<html>busy</html>'') = 200"
    by (simp add: ok_response_def)
  have c: "io_ReadAll (ok_response ''<html>busy</html>'') = Inr ''<html>busy</html>''"
    by (simp add: ok_response_def io_ReadAll_def)
  have d: "\<forall>u. json_dreamifly html_env ''<html>busy</html>'' = Inr u \<longrightarrow> u = []"
    by (simp add: html_env_def base_env_def)
  from dreamifly_raw_body[OF html_req a b c] d
  have "Dreamifly_Generate html_env cat_input [] =
        (Inr \<lparr>OutImageBytes = ''<html>busy</html>'', OutImageURL = [], Format = []\<rparr>,
         [] @ [Ev_Do cat_dreamifly_request])"
    by blast
  with html_req a b c show ?thesis by simp
qed

subsection \<open>The handlers\<close>

lemma calls_append: "calls (a @ b) = calls a @ calls b"
  by (induction a rule: calls.induct) simp_all

lemma deletes_append: "deletes (a @ b) = deletes a @ deletes b"
  by (induction a rule: deletes.induct) simp_all

lemma network_calls: "list_all network_event t \<Longrightarrow> calls t = []"
  by (induction t rule: calls.induct) simp_all

lemma network_deletes: "list_all network_event t \<Longrightarrow> deletes t = []"
  by (induction t rule: deletes.induct) simp_all

lemma net_ext_refl: "net_ext h h"
  by (simp add: net_ext_def)

lemma net_ext_trans: "net_ext a b \<Longrightarrow> net_ext b c \<Longrightarrow> net_ext a c"
  by (auto simp: net_ext_def)

lemma net_ext_snoc: "network_event e \<Longrightarrow> net_ext h (h @ [e])"
  by (simp add: net_ext_def)

lemma net_ext_calls: "net_ext h h' \<Longrightarrow> calls h' = calls h"
  by (auto simp: net_ext_def calls_append network_calls)

lemma net_ext_deletes: "net_ext h h' \<Longrightarrow> deletes h' = deletes h"
  by (auto simp: net_ext_def deletes_append network_deletes)

lemma client_Do_net: "client_Do E req h = (r, h') \<Longrightarrow> net_ext h h'"
  by (auto simp: client_Do_def intro: net_ext_snoc)

lemma time_Sleep_net: "net_ext h (time_Sleep n h)"
  by (simp add: time_Sleep_def net_ext_snoc)

lemma DownloadFile_net: "DownloadFile E url h = (r, h') \<Longrightarrow> net_ext h h'"
  by (auto simp: DownloadFile_def http_Get_def split: sum.splits if_splits intro: net_ext_snoc)

lemma UploadImage_net: "UploadImage E k b fn h = (r, h') \<Longrightarrow> net_ext h h'"
  by (auto simp: UploadImage_def Let_def split: sum.splits if_splits prod.splits
           intro: net_ext_refl dest: client_Do_net)

lemma pollinations_loop_net: "pollinations_loop E req i resp h = (r, h') \<Longrightarrow> net_ext h h'"
proof (induction E req i resp h rule: pollinations_loop.induct)
  case (1 E req i resp h)
  show ?case
  proof (cases "i < maxRetries")
    case False
    with "1.prems" show ?thesis by (subst (asm) pollinations_loop.simps) (simp add: net_ext_refl)
  next
    case True
    obtain a h1 where d: "client_Do E req h = (a, h1)" by (cases "client_Do E req h")
    then have n1: "net_ext h h1" by (rule client_Do_net)
    have n2: "net_ext h (time_Sleep retryInterval h1)"
      using n1 time_Sleep_net net_ext_trans by blast
    show ?thesis
    proof (cases "i < maxRetries - 1")
      case last: False
      with "1.prems" True d n1 show ?thesis
        by (subst (asm) pollinations_loop.simps) (auto split: sum.splits if_splits)
    next
      case more: True
      show ?thesis
      proof (cases a)
        case (Inl err)
        with "1.prems" True d more
        have "pollinations_loop E req (i + 1) None (time_Sleep retryInterval h1) = (r, h')"
          by (subst (asm) pollinations_loop.simps) simp
        from "1.IH"(1)[OF True d[symmetric] Inl more this] n2 show ?thesis
          using net_ext_trans by blast
      next
        case (Inr resp1)
        show ?thesis
        proof (cases "StatusCode resp1 = 200")
          case True
          with "1.prems" \<open>i < maxRetries\<close> d Inr n1 show ?thesis
            by (subst (asm) pollinations_loop.simps) simp
        next
          case False
          with "1.prems" \<open>i < maxRetries\<close> d more Inr
          have rec: "pollinations_loop E req (i + 1) (Some resp1) (time_Sleep retryInterval h1) = (r, h')"
            by (subst (asm) pollinations_loop.simps) (simp add: Let_def)
          from "1.IH"(2)[OF \<open>i < maxRetries\<close> d[symmetric] Inr False _ more rec] n2 show ?thesis
            using net_ext_trans by blast
        qed
      qed
    qed
  qed
qed


lemma net_ext_snoc2: "net_ext (h @ t) h' \<Longrightarrow> list_all network_event t \<Longrightarrow> net_ext h h'"
  by (auto simp: net_ext_def)

lemma modelscope_poll_net: "modelscope_poll E k u i h = (r, h') \<Longrightarrow> net_ext h h'"
proof (induction "maxPollingAttempts - i" arbitrary: i h)
  case 0
  then show ?case by (subst (asm) modelscope_poll.simps) (simp add: net_ext_refl)
next
  case (Suc n)
  then have lt: "i < maxPollingAttempts" by simp
  have rec: "\<And>t. modelscope_poll E k u (i + 1) (h @ t) = (r, h') \<Longrightarrow> list_all network_event t
                \<Longrightarrow> net_ext h h'"
  proof -
    fix t assume a: "modelscope_poll E k u (i + 1) (h @ t) = (r, h')" and b: "list_all network_event t"
    have "n = maxPollingAttempts - (i + 1)" using Suc.hyps(2) by simp
    from Suc.hyps(1)[OF this a] b show "net_ext h h'" by (rule net_ext_snoc2)
  qed
  have fin: "\<And>t. list_all network_event t \<Longrightarrow> net_ext h (h @ t)"
    by (auto simp: net_ext_def)
  from Suc.prems lt show ?case
    apply (subst (asm) modelscope_poll.simps)
    apply (simp add: Let_def http_NewRequest_def client_Do_def time_Sleep_def DownloadFile_def
             http_Get_def
           split: sum.splits option.splits if_splits prod.splits list.splits)
    apply (auto intro: rec[of "[_, _]", simplified] fin[of "[_]", simplified]
                       fin[of "[_, _]", simplified] fin[of "[_, _, _]", simplified])
    done
qed


lemma Dreamifly_Generate_net: "Dreamifly_Generate E input h = (r, h') \<Longrightarrow> net_ext h h'"
  by (auto simp: Dreamifly_Generate_def split: sum.splits if_splits prod.splits
           intro: net_ext_refl dest: client_Do_net)

lemma FalAI_Generate_net: "FalAI_Generate E k input h = (r, h') \<Longrightarrow> net_ext h h'"
  by (auto simp: FalAI_Generate_def Let_def split: sum.splits if_splits prod.splits list.splits
           intro: net_ext_refl net_ext_trans dest: client_Do_net DownloadFile_net)

lemma ModelScope_Generate_net: "ModelScope_Generate E k input h = (r, h') \<Longrightarrow> net_ext h h'"
  by (auto simp: ModelScope_Generate_def Let_def split: sum.splits if_splits prod.splits
           intro: net_ext_refl net_ext_trans dest: client_Do_net modelscope_poll_net)

lemma PollinationsAI_Generate_net: "PollinationsAI_Generate E k input h = (r, h') \<Longrightarrow> net_ext h h'"
  by (auto simp: PollinationsAI_Generate_def split: sum.splits if_splits prod.splits option.splits
           intro: net_ext_refl dest: pollinations_loop_net)

lemma Generate_net: "Generate E provider input h = (r, h') \<Longrightarrow> net_ext h h'"
  by (cases provider)
     (auto dest: Dreamifly_Generate_net FalAI_Generate_net ModelScope_Generate_net
                 PollinationsAI_Generate_net)

lemma DeleteImage_events:
  "DeleteImage E k x h = (r, h') \<Longrightarrow> net_ext (h @ [Ev_DeleteImage x]) h'"
  by (auto simp: DeleteImage_def Let_def split: sum.splits if_splits prod.splits option.splits
           intro: net_ext_refl dest: client_Do_net)

lemma form_image_net: "form_image E r h = (x, h') \<Longrightarrow> net_ext h h'"
  by (auto simp: form_image_def Let_def split: form_file.splits sum.splits if_splits prod.splits
           intro: net_ext_refl dest: DownloadFile_net)

lemma stage_image_net: "stage_image E G r provider input b fn h = (x, h') \<Longrightarrow> net_ext h h'"
  by (auto simp: stage_image_def Let_def split: sum.splits if_splits prod.splits option.splits
           intro: net_ext_refl dest: UploadImage_net)

lemma prepare_request_net: "prepare_request E G r h = (x, h') \<Longrightarrow> net_ext h h'"
  by (auto simp: prepare_request_def Let_def split: sum.splits if_splits prod.splits option.splits
           intro: net_ext_refl net_ext_trans dest: form_image_net stage_image_net)


lemma generate_and_deliver_deletes:
  "generate_and_deliver E G full pn provider input h = (resp, h') \<Longrightarrow> deletes h' = deletes h"
  by (auto simp: generate_and_deliver_def Let_def os_WriteFile_def deletes_append
           split: sum.splits if_splits prod.splits option.splits
           dest!: Generate_net UploadImage_net net_ext_deletes)

lemma generate_and_deliver_calls:
  "generate_and_deliver E G full pn provider input h = (resp, h')
     \<Longrightarrow> calls h' = calls h \<or> calls h' = calls h @ [(pn, input)]"
  by (auto simp: generate_and_deliver_def Let_def os_WriteFile_def calls_append
           split: sum.splits if_splits prod.splits option.splits
           dest!: Generate_net UploadImage_net net_ext_calls)

lemma run_deferred_calls: "calls (run_deferred E G d h) = calls h"
proof (cases d)
  case None
  then show ?thesis by (simp add: run_deferred_def)
next
  case (Some x)
  show ?thesis
  proof (cases "x \<noteq> [] \<and> imageHostClient G \<noteq> None")
    case False
    with Some show ?thesis by (auto simp: run_deferred_def)
  next
    case True
    then obtain k where k: "imageHostClient G = Some k" by auto
    obtain r h' where d: "DeleteImage E k x h = (r, h')" by (cases "DeleteImage E k x h")
    from DeleteImage_events[OF d] have "calls h' = calls (h @ [Ev_DeleteImage x])"
      by (rule net_ext_calls)
    with Some True k d show ?thesis by (simp add: run_deferred_def calls_append)
  qed
qed

lemma run_deferred_deletes:
  assumes "imageHostClient G = Some k"
  shows "deletes (run_deferred E G (Some x) h) = deletes h @ (if x = [] then [] else [x])"
proof (cases "x = []")
  case True
  then show ?thesis by (simp add: run_deferred_def)
next
  case False
  obtain r h' where d: "DeleteImage E k x h = (r, h')" by (cases "DeleteImage E k x h")
  from DeleteImage_events[OF d] have "deletes h' = deletes (h @ [Ev_DeleteImage x])"
    by (rule net_ext_deletes)
  with False assms d show ?thesis by (simp add: run_deferred_def deletes_append)
qed

lemma stage_image_deferred:
  "stage_image E G r provider input b fn h = (Inr (input', Some x), h') \<Longrightarrow> imageHostClient G \<noteq> None"
  by (auto simp: stage_image_def Let_def split: sum.splits if_splits prod.splits option.splits)

lemma prepare_request_deferred:
  "prepare_request E G r h = (Inr (full, pn, provider, input, Some x), h') \<Longrightarrow> imageHostClient G \<noteq> None"
  by (auto simp: prepare_request_def Let_def split: sum.splits if_splits prod.splits option.splits
           dest: stage_image_deferred)

lemma api_image_net: "api_image E G apiReq provider input h = (x, h') \<Longrightarrow> net_ext h h'"
  by (auto simp: api_image_def Let_def split: sum.splits if_splits prod.splits option.splits
           intro: net_ext_refl net_ext_trans dest: DownloadFile_net UploadImage_net)

lemma api_generate_and_deliver_deletes:
  "api_generate_and_deliver E G apiReq pn provider input h = (resp, h') \<Longrightarrow> deletes h' = deletes h"
  by (auto simp: api_generate_and_deliver_def Let_def os_WriteFile_def deletes_append
           split: sum.splits if_splits prod.splits option.splits
           dest!: Generate_net UploadImage_net net_ext_deletes)

lemma api_generate_and_deliver_calls:
  "api_generate_and_deliver E G apiReq pn provider input h = (resp, h')
     \<Longrightarrow> calls h' = calls h \<or> calls h' = calls h @ [(pn, input)]"
  by (auto simp: api_generate_and_deliver_def Let_def os_WriteFile_def calls_append
           split: sum.splits if_splits prod.splits option.splits
           dest!: Generate_net UploadImage_net net_ext_calls)

lemma api_generate_and_deliver_deletes_snd:
  "deletes (snd (api_generate_and_deliver E G apiReq pn provider input h)) = deletes h"
  by (cases "api_generate_and_deliver E G apiReq pn provider input h")
     (simp add: api_generate_and_deliver_deletes)

lemma handleAPIGenerate_deletes:
  "deletes (snd (handleAPIGenerate E G r h)) = deletes h"
  by (auto simp: handleAPIGenerate_def Let_def api_generate_and_deliver_deletes_snd
           split: sum.splits if_splits prod.splits option.splits
           dest!: api_image_net net_ext_deletes)

text \<open>
  C3, as the code has it. In a request to \<open>handleGenerate\<close> for which the preparation
  ended with a staged image (the upload succeeded and the deletion was deferred),
  \<open>DeleteImage\<close> is called exactly once, with the staged image's ID, whatever the
  response is (success, error of the provider, error after it), provided the host
  returned a non-empty image ID; with an empty ID it is not called. A request to
  \<open>handleAPIGenerate\<close>, the v1 endpoint, never calls \<open>DeleteImage\<close>.
\<close>

theorem staged_image_deleted_once:
  assumes "prepare_request E G r h = (Inr (fullModelName, providerName, provider, input, Some tempImageID), h2)"
    and "handleGenerate E G r h = (resp, h')"
  shows "deletes h' = deletes h @ (if tempImageID = [] then [] else [tempImageID])
       \<and> deletes (snd (handleAPIGenerate E G jr h)) = deletes h"
proof -
  obtain k where k: "imageHostClient G = Some k"
    using prepare_request_deferred[OF assms(1)] by auto
  obtain resp3 h3 where g: "generate_and_deliver E G fullModelName providerName provider input h2 = (resp3, h3)"
    by (cases "generate_and_deliver E G fullModelName providerName provider input h2")
  have h': "h' = run_deferred E G (Some tempImageID) h3"
    using assms g by (simp add: handleGenerate_def)
  have "deletes h2 = deletes h"
    using prepare_request_net[OF assms(1)] by (rule net_ext_deletes)
  moreover have "deletes h3 = deletes h2"
    using g by (rule generate_and_deliver_deletes)
  ultimately show ?thesis
    using h' run_deferred_deletes[OF k] handleAPIGenerate_deletes by simp
qed


lemma stage_image_staged:
  assumes "RequiresImageURL provider"
    and "providedImageBytes \<noteq> []"
    and "stage_image E G r provider input providedImageBytes providedImageFilename h
           = (Inr (input', deferred), h')"
  shows "\<exists>processedBytes APIKey uploadResp.
           processImage E providedImageBytes
             (uint_of (if fst (strconv_Atoi (FormValue r ''input_size_limit'')) = 0 then 1024
                       else fst (strconv_Atoi (FormValue r ''input_size_limit'')))) = Inr processedBytes
         \<and> imageHostClient G = Some APIKey
         \<and> UploadImage E APIKey processedBytes
               (strings_TrimSuffix providedImageFilename ''.png'' @ ''.jpg'') h = (Inr uploadResp, h')
         \<and> input' = input\<lparr>ImageBytes := processedBytes, ImageURL := up_LinksDirect uploadResp\<rparr>
         \<and> deferred = Some (up_ImageID uploadResp)"
  using assms
  by (simp add: stage_image_def Let_def split: sum.splits if_splits prod.splits option.splits)

lemma api_image_staged:
  assumes "RequiresImageURL provider"
    and "api_ImageURL apiReq \<noteq> []"
    and "DownloadFile E (api_ImageURL apiReq) h = (Inr (downloadedBytes, contentType), h1)"
    and "downloadedBytes \<noteq> []"
    and "api_image E G apiReq provider input h = (Inr input', h')"
  shows "\<exists>processedBytes APIKey uploadResp.
           processImage E downloadedBytes 1024 = Inr processedBytes
         \<and> imageHostClient G = Some APIKey
         \<and> UploadImage E APIKey processedBytes ''api_input.jpg'' h1 = (Inr uploadResp, h')
         \<and> input' = input\<lparr>ImageBytes := processedBytes, ImageURL := up_LinksDirect uploadResp\<rparr>"
  using assms
  by (simp add: api_image_def Let_def split: sum.splits if_splits prod.splits option.splits)

text \<open>
  C1, as the code has it. When the provider requires a URL and an image was provided, a
  staging step that succeeds leaves the input with both fields set and nothing else
  changed: \<open>ImageBytes\<close> is the processed bytes, which are what was uploaded, and
  \<open>ImageURL\<close> is the field \<open>links.direct\<close> of the image host's answer, copied as it is.
  The bytes are not cleared, so both fields are non-empty at once exactly when the
  processed bytes and that link are non-empty. This holds in \<open>handleGenerate\<close> (where
  the image ID of the answer is kept for the deferred deletion) and in
  \<open>handleAPIGenerate\<close> (where the image is the one downloaded from the request's URL).
\<close>

theorem staging_sets_url_keeps_bytes:
  "(RequiresImageURL provider
      \<and> providedImageBytes \<noteq> []
      \<and> stage_image E G r provider input providedImageBytes providedImageFilename h
           = (Inr (input', deferred), h')
    \<longrightarrow> (\<exists>sizeLimit processedBytes APIKey uploadResp.
           processImage E providedImageBytes sizeLimit = Inr processedBytes
         \<and> imageHostClient G = Some APIKey
         \<and> UploadImage E APIKey processedBytes
               (strings_TrimSuffix providedImageFilename ''.png'' @ ''.jpg'') h = (Inr uploadResp, h')
         \<and> input' = input\<lparr>ImageBytes := processedBytes, ImageURL := up_LinksDirect uploadResp\<rparr>
         \<and> ImageBytes input' = processedBytes
         \<and> ImageURL input' = up_LinksDirect uploadResp
         \<and> deferred = Some (up_ImageID uploadResp)
         \<and> ((ImageBytes input' \<noteq> [] \<and> ImageURL input' \<noteq> [])
              = (processedBytes \<noteq> [] \<and> up_LinksDirect uploadResp \<noteq> []))))
   \<and> (RequiresImageURL provider
      \<and> api_ImageURL apiReq \<noteq> []
      \<and> DownloadFile E (api_ImageURL apiReq) h = (Inr (downloadedBytes, contentType), h1)
      \<and> downloadedBytes \<noteq> []
      \<and> api_image E G apiReq provider input h = (Inr input2, h2)
    \<longrightarrow> (\<exists>processedBytes APIKey uploadResp.
           processImage E downloadedBytes 1024 = Inr processedBytes
         \<and> imageHostClient G = Some APIKey
         \<and> UploadImage E APIKey processedBytes ''api_input.jpg'' h1 = (Inr uploadResp, h2)
         \<and> input2 = input\<lparr>ImageBytes := processedBytes, ImageURL := up_LinksDirect uploadResp\<rparr>
         \<and> ImageBytes input2 = processedBytes
         \<and> ImageURL input2 = up_LinksDirect uploadResp
         \<and> ((ImageBytes input2 \<noteq> [] \<and> ImageURL input2 \<noteq> [])
              = (processedBytes \<noteq> [] \<and> up_LinksDirect uploadResp \<noteq> []))))"
proof (intro conjI impI)
  assume a: "RequiresImageURL provider
      \<and> providedImageBytes \<noteq> []
      \<and> stage_image E G r provider input providedImageBytes providedImageFilename h
           = (Inr (input', deferred), h')"
  then have a1: "RequiresImageURL provider" and a2: "providedImageBytes \<noteq> []"
    and a3: "stage_image E G r provider input providedImageBytes providedImageFilename h
           = (Inr (input', deferred), h')" by simp_all
  from stage_image_staged[OF a1 a2 a3] obtain processedBytes APIKey uploadResp where
    p: "processImage E providedImageBytes
             (uint_of (if fst (strconv_Atoi (FormValue r ''input_size_limit'')) = 0 then 1024
                       else fst (strconv_Atoi (FormValue r ''input_size_limit'')))) = Inr processedBytes"
    and b: "imageHostClient G = Some APIKey"
    and c: "UploadImage E APIKey processedBytes
               (strings_TrimSuffix providedImageFilename ''.png'' @ ''.jpg'') h = (Inr uploadResp, h')"
    and d: "input' = input\<lparr>ImageBytes := processedBytes, ImageURL := up_LinksDirect uploadResp\<rparr>"
    and e: "deferred = Some (up_ImageID uploadResp)"
    by blast
  from d have f: "ImageBytes input' = processedBytes" "ImageURL input' = up_LinksDirect uploadResp"
    by simp_all
  then have g: "(ImageBytes input' \<noteq> [] \<and> ImageURL input' \<noteq> [])
              = (processedBytes \<noteq> [] \<and> up_LinksDirect uploadResp \<noteq> [])" by simp
  from p b c d e f g show "\<exists>sizeLimit processedBytes APIKey uploadResp.
           processImage E providedImageBytes sizeLimit = Inr processedBytes
         \<and> imageHostClient G = Some APIKey
         \<and> UploadImage E APIKey processedBytes
               (strings_TrimSuffix providedImageFilename ''.png'' @ ''.jpg'') h = (Inr uploadResp, h')
         \<and> input' = input\<lparr>ImageBytes := processedBytes, ImageURL := up_LinksDirect uploadResp\<rparr>
         \<and> ImageBytes input' = processedBytes
         \<and> ImageURL input' = up_LinksDirect uploadResp
         \<and> deferred = Some (up_ImageID uploadResp)
         \<and> ((ImageBytes input' \<noteq> [] \<and> ImageURL input' \<noteq> [])
              = (processedBytes \<noteq> [] \<and> up_LinksDirect uploadResp \<noteq> []))"
    by (intro exI conjI)
next
  assume a: "RequiresImageURL provider
      \<and> api_ImageURL apiReq \<noteq> []
      \<and> DownloadFile E (api_ImageURL apiReq) h = (Inr (downloadedBytes, contentType), h1)
      \<and> downloadedBytes \<noteq> []
      \<and> api_image E G apiReq provider input h = (Inr input2, h2)"
  then have a1: "RequiresImageURL provider" and a2: "api_ImageURL apiReq \<noteq> []"
    and a3: "DownloadFile E (api_ImageURL apiReq) h = (Inr (downloadedBytes, contentType), h1)"
    and a4: "downloadedBytes \<noteq> []"
    and a5: "api_image E G apiReq provider input h = (Inr input2, h2)" by simp_all
  from api_image_staged[OF a1 a2 a3 a4 a5] obtain processedBytes APIKey uploadResp where
    p: "processImage E downloadedBytes 1024 = Inr processedBytes"
    and b: "imageHostClient G = Some APIKey"
    and c: "UploadImage E APIKey processedBytes ''api_input.jpg'' h1 = (Inr uploadResp, h2)"
    and d: "input2 = input\<lparr>ImageBytes := processedBytes, ImageURL := up_LinksDirect uploadResp\<rparr>"
    by blast
  from d have f: "ImageBytes input2 = processedBytes" "ImageURL input2 = up_LinksDirect uploadResp"
    by simp_all
  then have g: "(ImageBytes input2 \<noteq> [] \<and> ImageURL input2 \<noteq> [])
              = (processedBytes \<noteq> [] \<and> up_LinksDirect uploadResp \<noteq> [])" by simp
  from p b c d f g show "\<exists>processedBytes APIKey uploadResp.
           processImage E downloadedBytes 1024 = Inr processedBytes
         \<and> imageHostClient G = Some APIKey
         \<and> UploadImage E APIKey processedBytes ''api_input.jpg'' h1 = (Inr uploadResp, h2)
         \<and> input2 = input\<lparr>ImageBytes := processedBytes, ImageURL := up_LinksDirect uploadResp\<rparr>
         \<and> ImageBytes input2 = processedBytes
         \<and> ImageURL input2 = up_LinksDirect uploadResp
         \<and> ((ImageBytes input2 \<noteq> [] \<and> ImageURL input2 \<noteq> [])
              = (processedBytes \<noteq> [] \<and> up_LinksDirect uploadResp \<noteq> []))"
    by (intro exI conjI)
qed

lemma form_input_size:
  "Width (form_input E r m) = (if fst (strconv_Atoi (FormValue r ''width'')) = 0 then 1024
                               else fst (strconv_Atoi (FormValue r ''width'')))
   \<and> Height (form_input E r m) = (if fst (strconv_Atoi (FormValue r ''height'')) = 0 then 1024
                               else fst (strconv_Atoi (FormValue r ''height'')))"
  by (simp add: form_input_def Let_def split: prod.splits bool.splits)

lemma stage_image_size:
  "stage_image E G r provider input b fn h = (Inr (input', d), h')
     \<Longrightarrow> Width input' = Width input \<and> Height input' = Height input \<and> Model input' = Model input"
  by (auto simp: stage_image_def Let_def split: sum.splits if_splits prod.splits option.splits)

lemma prepare_request_size:
  "prepare_request E G r h = (Inr (full, pn, provider, input, d), h')
     \<Longrightarrow> Width input = (if fst (strconv_Atoi (FormValue r ''width'')) = 0 then 1024
                               else fst (strconv_Atoi (FormValue r ''width'')))
       \<and> Height input = (if fst (strconv_Atoi (FormValue r ''height'')) = 0 then 1024
                               else fst (strconv_Atoi (FormValue r ''height'')))"
  by (auto simp: prepare_request_def Let_def form_input_size
           split: sum.splits if_splits prod.splits option.splits dest!: stage_image_size)

lemma api_image_size:
  "api_image E G apiReq provider input h = (Inr input', h')
     \<Longrightarrow> Width input' = Width input \<and> Height input' = Height input"
  by (auto simp: api_image_def Let_def split: sum.splits if_splits prod.splits option.splits)

lemma api_input_size:
  "Width (api_input E apiReq m) = (if api_Width apiReq = 0 then 1024 else api_Width apiReq)
   \<and> Height (api_input E apiReq m) = (if api_Height apiReq = 0 then 1024 else api_Height apiReq)"
  by (simp add: api_input_def Let_def)

text \<open>
  C4, as the code has it. Each handler calls a provider at most once, and the width and
  the height of the input it hands over are those of the request (the form values read
  by \<open>strconv.Atoi\<close>, or the JSON fields), with 1024 in place of 0; the model's
  \<open>MaxWidth\<close> and \<open>MaxHeight\<close> play no part.
\<close>

theorem size_passed_unclamped:
  "(handleGenerate E G r h = (resp, h') \<longrightarrow>
      calls h' = calls h
      \<or> (\<exists>providerName input. calls h' = calls h @ [(providerName, input)]
            \<and> Width input = (if fst (strconv_Atoi (FormValue r ''width'')) = 0 then 1024
                              else fst (strconv_Atoi (FormValue r ''width'')))
            \<and> Height input = (if fst (strconv_Atoi (FormValue r ''height'')) = 0 then 1024
                               else fst (strconv_Atoi (FormValue r ''height'')))))
   \<and> (handleAPIGenerate E G jr h = (resp2, h2) \<longrightarrow>
      calls h2 = calls h
      \<or> (\<exists>providerName input apiReq. jr_Body jr = Inr apiReq
            \<and> calls h2 = calls h @ [(providerName, input)]
            \<and> Width input = (if api_Width apiReq = 0 then 1024 else api_Width apiReq)
            \<and> Height input = (if api_Height apiReq = 0 then 1024 else api_Height apiReq)))"
proof (intro conjI impI)
  assume run: "handleGenerate E G r h = (resp, h')"
  obtain x h1 where p: "prepare_request E G r h = (x, h1)" by (cases "prepare_request E G r h")
  have c1: "calls h1 = calls h" using prepare_request_net[OF p] by (rule net_ext_calls)
  show "calls h' = calls h
      \<or> (\<exists>providerName input. calls h' = calls h @ [(providerName, input)]
            \<and> Width input = (if fst (strconv_Atoi (FormValue r ''width'')) = 0 then 1024
                              else fst (strconv_Atoi (FormValue r ''width'')))
            \<and> Height input = (if fst (strconv_Atoi (FormValue r ''height'')) = 0 then 1024
                               else fst (strconv_Atoi (FormValue r ''height''))))"
  proof (cases x)
    case (Inl a)
    with run p c1 show ?thesis by (simp add: handleGenerate_def)
  next
    case (Inr y)
    obtain full pn provider input d where y: "y = (full, pn, provider, input, d)" by (cases y) auto
    obtain resp3 h3 where g: "generate_and_deliver E G full pn provider input h1 = (resp3, h3)"
      by (cases "generate_and_deliver E G full pn provider input h1")
    have h': "h' = run_deferred E G d h3" using run p Inr y g by (simp add: handleGenerate_def)
    have sz: "Width input = (if fst (strconv_Atoi (FormValue r ''width'')) = 0 then 1024
                              else fst (strconv_Atoi (FormValue r ''width'')))
            \<and> Height input = (if fst (strconv_Atoi (FormValue r ''height'')) = 0 then 1024
                               else fst (strconv_Atoi (FormValue r ''height'')))"
      using p Inr y prepare_request_size by blast
    from generate_and_deliver_calls[OF g] c1 h' sz show ?thesis
      by (auto simp: run_deferred_calls)
  qed
next
  assume run: "handleAPIGenerate E G jr h = (resp2, h2)"
  show "calls h2 = calls h
      \<or> (\<exists>providerName input apiReq. jr_Body jr = Inr apiReq
            \<and> calls h2 = calls h @ [(providerName, input)]
            \<and> Width input = (if api_Width apiReq = 0 then 1024 else api_Width apiReq)
            \<and> Height input = (if api_Height apiReq = 0 then 1024 else api_Height apiReq))"
  proof (cases "\<exists>apiReq pn mn provider input h1. jr_Method jr = ''POST'' \<and> jr_Body jr = Inr apiReq
            \<and> api_Prompt apiReq \<noteq> [] \<and> api_Model apiReq \<noteq> []
            \<and> ParseModelName (api_Model apiReq) = Inr (pn, mn)
            \<and> providerRegistry G pn = Some provider
            \<and> api_image E G apiReq provider (api_input E apiReq mn) h = (Inr input, h1)")
    case False
    with run show ?thesis
      by (auto simp: handleAPIGenerate_def Let_def
               split: sum.splits if_splits prod.splits option.splits
               dest!: api_image_net net_ext_calls)
  next
    case True
    then obtain apiReq pn mn provider input h1 where
      t: "jr_Method jr = ''POST''" "jr_Body jr = Inr apiReq"
         "api_Prompt apiReq \<noteq> []" "api_Model apiReq \<noteq> []"
         "ParseModelName (api_Model apiReq) = Inr (pn, mn)"
         "providerRegistry G pn = Some provider"
         "api_image E G apiReq provider (api_input E apiReq mn) h = (Inr input, h1)"
      by blast
    have g: "api_generate_and_deliver E G apiReq pn provider input h1 = (resp2, h2)"
      using run t by (simp add: handleAPIGenerate_def)
    have c1: "calls h1 = calls h" using api_image_net[OF t(7)] by (rule net_ext_calls)
    have sz: "Width input = (if api_Width apiReq = 0 then 1024 else api_Width apiReq)
            \<and> Height input = (if api_Height apiReq = 0 then 1024 else api_Height apiReq)"
      using api_image_size[OF t(7)] api_input_size[of E apiReq mn] by simp
    from api_generate_and_deliver_calls[OF g] c1 sz t(2) show ?thesis by auto
  qed
qed





text \<open>
  The other edit-capable models are checked before any network call: the two Dreamifly
  models in the handler, Pollinations.ai's kontext and Fal.ai's model in their adapters.
\<close>

lemma edit_models_checked_elsewhere:
  "(ImageBytes input = [] \<and> (fullModelName = ''Dreamifly/Flux-Kontext'' \<or> fullModelName = ''Dreamifly/Qwen-Image-Edit'')
      \<longrightarrow> generate_and_deliver E G fullModelName providerName provider input h
          = (Http_Error (Errorf (''Model '' @ sq @ ''%s'' @ sq @ '' requires an image'')
                           [A_str fullModelName]) 400, h))
   \<and> (ImageURL input = [] \<and> Model input = ''kontext''
      \<longrightarrow> PollinationsAI_Generate E APIKey input h
          = (Inl (Errorf (''Pollinations_ai: model '' @ sq @ ''%s'' @ sq @ '' requires an image URL'')
                    [A_str (Model input)]), h))
   \<and> (ImageURL input = []
      \<longrightarrow> FalAI_Generate E APIKey input h = (Inl (Errorf ''fal_ai: image URL is required'' []), h))"
  by (simp add: generate_and_deliver_def PollinationsAI_Generate_def pollinations_request_def
        FalAI_Generate_def)

subsection \<open>Concrete runs\<close>

lemma studio_registry:
  "providerRegistry studio_globals ''Pollinations_ai'' = Some (PollinationsAI [])"
  by (simp add: studio_globals_def initializeProviders_def studio_env_def base_env_def)

lemma atoi_4096: "strconv_Atoi ''4096'' = (4096, True)"
  by (simp add: strconv_Atoi_def strconv_ParseInt_def is_digit_def digits_value_def)

lemma atoi_empty: "strconv_Atoi [] = (0, False)"
  by (simp add: strconv_Atoi_def strconv_ParseInt_def)

lemma parse_42: "strconv_ParseInt ''42'' = (42, True)"
  by (simp add: strconv_ParseInt_def is_digit_def digits_value_def)

lemma kontext_form_input: "form_input E kontext_form ''kontext'' = bare_input"
  by (simp add: form_input_def kontext_form_def FormValue_def atoi_4096 parse_42 bare_input_def)

lemma parse_kontext: "ParseModelName ''Pollinations_ai/kontext'' = Inr (''Pollinations_ai'', ''kontext'')"
  by (simp add: ParseModelName_def SplitN2_def)

lemma studio_env_fields:
  "http_do studio_env = (\<lambda>h req. Inr (ok_response ''PNGOUT''))"
  "http_get studio_env = (\<lambda>h url. Inr (ok_response ''PNGDATA''))"
  "new_request_error studio_env = (\<lambda>m url. None)"
  "getenv studio_env = (\<lambda>k. [])"
  "rand_Int63n studio_env = 123456"
  "rand_Intn studio_env = 7"
  "now_Format studio_env = ''2026_0101_120000''"
  "url_PathEscape studio_env = (\<lambda>s. s)"
  "url_Values_Encode studio_env = plain_encode"
  "json_upload studio_env = (\<lambda>b. Inr studio_upload)"
  "json_delete studio_env = (\<lambda>b. Inr \<lparr>del_Success = True, del_Message = []\<rparr>)"
  "image_Decode studio_env = (\<lambda>b. if b = ''PNGDATA'' then Inr \<lparr>Dx = 640, Dy = 480, Pix = ''pixels''\<rparr>
                                    else Inl (Lib_error ''image: unknown format''))"
  "jpeg_Encode studio_env = (\<lambda>img q. Inr ''JPEGDATA'')"
  by (simp_all add: studio_env_def base_env_def studio_upload_def)

lemma studio_host: "imageHostClient studio_globals = Some ''host-key''"
  by (simp add: studio_globals_def)

lemma studio_process: "processImage studio_env ''PNGDATA'' (uint_of 1024) = Inr ''JPEGDATA''"
  by (simp add: processImage_def studio_env_fields uint_of_def)

lemma studio_UploadImage:
  "UploadImage studio_env ''host-key'' b fn h = (Inr studio_upload, h @ [Ev_Do (upload_request b fn)])"
  by (simp add: UploadImage_def studio_env_fields http_NewRequest_def Header_Set_def client_Do_def
        uploadAPIURL_def ok_response_def upload_request_def studio_upload_def)

lemma studio_stage:
  "stage_image studio_env studio_globals kontext_form (PollinationsAI []) bare_input ''PNGDATA'' ''photo.png'' []
     = (Inr (staged_input, Some ''abc''), [Ev_Do (upload_request ''JPEGDATA'' ''photo.jpg'')])"
  by (simp add: stage_image_def kontext_form_def FormValue_def atoi_empty studio_process
        strings_TrimSuffix_def studio_host studio_UploadImage bare_input_def staged_input_def
        studio_upload_def Let_def)

lemma studio_prepare:
  "prepare_request studio_env studio_globals kontext_form []
     = (Inr (''Pollinations_ai/kontext'', ''Pollinations_ai'', PollinationsAI [], staged_input, Some ''abc''),
        [Ev_Do (upload_request ''JPEGDATA'' ''photo.jpg'')])"
proof -
  have a: "FormValue kontext_form ''model'' = ''Pollinations_ai/kontext''"
    by (simp add: kontext_form_def FormValue_def)
  have b: "form_image studio_env kontext_form [] = (Inr (''PNGDATA'', ''photo.png''), [])"
    by (simp add: form_image_def kontext_form_def)
  have c: "Method kontext_form = ''POST''" "MultipartOK kontext_form"
    by (simp_all add: kontext_form_def)
  show ?thesis
    by (simp add: prepare_request_def a b c parse_kontext studio_registry kontext_form_input studio_stage)
qed

lemma studio_kontext_request:
  "pollinations_request studio_env [] staged_input = Inr kontext_request"
  by (simp add: pollinations_request_def studio_env_fields staged_input_def pollinations_params_def
        Values_Add_def fmt_d_def digits_of.simps plain_encode_def http_NewRequest_def
        pollinationsAIAPIURL_def kontext_request_def)

lemma studio_Generate:
  "PollinationsAI_Generate studio_env [] staged_input h
     = (Inr \<lparr>OutImageBytes = ''PNGOUT'', OutImageURL = [], Format = ''jpeg''\<rparr>, h @ [Ev_Do kontext_request])"
  by (simp add: PollinationsAI_Generate_def studio_kontext_request pollinations_loop.simps
        maxRetries_def client_Do_def studio_env_fields ok_response_def io_ReadAll_def)

lemma studio_convert: "convertToWebP studio_env ''PNGOUT'' = Inl (Errorf ''failed to decode image for WebP conversion: %w'' [A_err (Lib_error ''image: unknown format'')])"
  by (simp add: convertToWebP_def studio_env_fields)

lemma lower_empty: "strings_ToLower [] = []"
  by (simp add: strings_ToLower_def)

lemma fmt_7: "fmt_03d 7 = ''007''"
  by (simp add: fmt_03d_def digits_of.simps numeral_2_eq_2)

lemma staged_input_bytes: "ImageBytes staged_input = ''JPEGDATA''"
  by (simp add: staged_input_def)

lemma studio_deliver:
  "generate_and_deliver studio_env studio_globals ''Pollinations_ai/kontext'' ''Pollinations_ai''
      (PollinationsAI []) staged_input h
     = (Json_ImageUrl ''https://cdn.nodeimage.com/i/abc.jpg'',
        h @ [Ev_Generate ''Pollinations_ai'' staged_input, Ev_Do kontext_request,
             Ev_WriteFile ''images/2026_0101_120000_007.webp'' ''PNGOUT'',
             Ev_Do (upload_request ''PNGOUT'' ''images/2026_0101_120000_007.webp'')])"
  by (simp add: generate_and_deliver_def studio_Generate studio_convert studio_env_fields lower_empty
        fmt_7 os_WriteFile_def studio_host studio_UploadImage studio_upload_def staged_input_bytes
        Let_def)

lemma studio_DeleteImage:
  "DeleteImage studio_env ''host-key'' x h = (None, h @ [Ev_DeleteImage x, Ev_Do (delete_request x)])"
  by (simp add: DeleteImage_def studio_env_fields http_NewRequest_def Header_Set_def client_Do_def
        deleteAPIURL_def ok_response_def delete_request_def)

lemma studio_run:
  "handleGenerate studio_env studio_globals kontext_form []
     = (Json_ImageUrl ''https://cdn.nodeimage.com/i/abc.jpg'',
        [Ev_Do (upload_request ''JPEGDATA'' ''photo.jpg''),
         Ev_Generate ''Pollinations_ai'' staged_input, Ev_Do kontext_request,
         Ev_WriteFile ''images/2026_0101_120000_007.webp'' ''PNGOUT'',
         Ev_Do (upload_request ''PNGOUT'' ''images/2026_0101_120000_007.webp''),
         Ev_DeleteImage ''abc'', Ev_Do (delete_request ''abc'')])"
  by (simp add: handleGenerate_def studio_prepare studio_deliver run_deferred_def studio_host
        studio_DeleteImage)

lemma studio_Download:
  "DownloadFile studio_env url h = (Inr (''PNGDATA'', ''image/jpeg''), h @ [Ev_Get url])"
  by (simp add: DownloadFile_def http_Get_def studio_env_fields ok_response_def io_ReadAll_def)

lemma studio_api_image:
  "api_image studio_env studio_globals
      \<lparr>api_Prompt = ''cat'', api_ImageURL = ''https://example.com/photo.png'',
       api_Width = 4096, api_Height = 4096, api_Model = ''Pollinations_ai/kontext'',
       api_Seed = 42, api_Steps = 0\<rparr> (PollinationsAI []) bare_input []
   = (Inr staged_input,
      [Ev_Get ''https://example.com/photo.png'', Ev_Do (upload_request ''JPEGDATA'' ''api_input.jpg'')])"
  using studio_process
  by (simp add: api_image_def studio_Download uint_of_def studio_host studio_UploadImage
        bare_input_def staged_input_def studio_upload_def Let_def)

lemma studio_api_deliver:
  "api_generate_and_deliver studio_env studio_globals
      \<lparr>api_Prompt = ''cat'', api_ImageURL = ''https://example.com/photo.png'',
       api_Width = 4096, api_Height = 4096, api_Model = ''Pollinations_ai/kontext'',
       api_Seed = 42, api_Steps = 0\<rparr> ''Pollinations_ai'' (PollinationsAI []) staged_input h
     = (Api_Success ''https://cdn.nodeimage.com/i/abc.jpg'',
        h @ [Ev_Generate ''Pollinations_ai'' staged_input, Ev_Do kontext_request,
             Ev_WriteFile ''images/2026_0101_120000_007.webp'' ''PNGOUT'',
             Ev_Do (upload_request ''PNGOUT'' ''images/2026_0101_120000_007.webp'')])"
  by (simp add: api_generate_and_deliver_def studio_Generate studio_convert studio_env_fields
        fmt_7 os_WriteFile_def studio_host studio_UploadImage studio_upload_def Let_def)

lemma studio_api_run:
  "handleAPIGenerate studio_env studio_globals kontext_api []
     = (Api_Success ''https://cdn.nodeimage.com/i/abc.jpg'',
        [Ev_Get ''https://example.com/photo.png'',
         Ev_Do (upload_request ''JPEGDATA'' ''api_input.jpg''),
         Ev_Generate ''Pollinations_ai'' staged_input, Ev_Do kontext_request,
         Ev_WriteFile ''images/2026_0101_120000_007.webp'' ''PNGOUT'',
         Ev_Do (upload_request ''PNGOUT'' ''images/2026_0101_120000_007.webp'')])"
proof -
  have a: "api_input studio_env
      \<lparr>api_Prompt = ''cat'', api_ImageURL = ''https://example.com/photo.png'',
       api_Width = 4096, api_Height = 4096, api_Model = ''Pollinations_ai/kontext'',
       api_Seed = 42, api_Steps = 0\<rparr> ''kontext'' = bare_input"
    by (simp add: api_input_def bare_input_def Let_def)
  show ?thesis
    by (simp add: handleAPIGenerate_def kontext_api_def parse_kontext studio_registry a
          studio_api_image studio_api_deliver)
qed

lemma outage_env_fields:
  "http_do outage_env = (\<lambda>h req. if req_url req = uploadAPIURL then Inr (ok_response ''ok'')
                                    else Inl (Lib_error ''connection refused''))"
  "new_request_error outage_env = (\<lambda>m url. None)"
  "getenv outage_env = (\<lambda>k. [])"
  "rand_Int63n outage_env = 123456"
  "url_PathEscape outage_env = (\<lambda>s. s)"
  "url_Values_Encode outage_env = plain_encode"
  "json_upload outage_env = (\<lambda>b. Inr studio_upload)"
  "image_Decode outage_env = (\<lambda>b. if b = ''PNGDATA'' then Inr \<lparr>Dx = 640, Dy = 480, Pix = ''pixels''\<rparr>
                                    else Inl (Lib_error ''image: unknown format''))"
  "jpeg_Encode outage_env = (\<lambda>img q. Inr ''JPEGDATA'')"
  by (simp_all add: outage_env_def studio_env_def base_env_def studio_upload_def)

lemma outage_prepare:
  "prepare_request outage_env studio_globals kontext_form []
     = (Inr (''Pollinations_ai/kontext'', ''Pollinations_ai'', PollinationsAI [], staged_input, Some ''abc''),
        [Ev_Do (upload_request ''JPEGDATA'' ''photo.jpg'')])"
proof -
  have a: "FormValue kontext_form ''model'' = ''Pollinations_ai/kontext''"
    by (simp add: kontext_form_def FormValue_def)
  have b: "form_image outage_env kontext_form [] = (Inr (''PNGDATA'', ''photo.png''), [])"
    by (simp add: form_image_def kontext_form_def)
  have c: "Method kontext_form = ''POST''" "MultipartOK kontext_form"
    by (simp_all add: kontext_form_def)
  have p: "processImage outage_env ''PNGDATA'' (uint_of 1024) = Inr ''JPEGDATA''"
    by (simp add: processImage_def outage_env_fields uint_of_def)
  have u: "\<And>b fn h. UploadImage outage_env ''host-key'' b fn h
             = (Inr studio_upload, h @ [Ev_Do (upload_request b fn)])"
    by (simp add: UploadImage_def outage_env_fields http_NewRequest_def Header_Set_def client_Do_def
        uploadAPIURL_def ok_response_def upload_request_def studio_upload_def)
  have s: "stage_image outage_env studio_globals kontext_form (PollinationsAI []) bare_input ''PNGDATA'' ''photo.png'' []
     = (Inr (staged_input, Some ''abc''), [Ev_Do (upload_request ''JPEGDATA'' ''photo.jpg'')])"
    by (simp add: stage_image_def kontext_form_def FormValue_def atoi_empty p
        strings_TrimSuffix_def studio_host u bare_input_def staged_input_def
        studio_upload_def Let_def)
  show ?thesis
    by (simp add: prepare_request_def a b c parse_kontext studio_registry kontext_form_input s)
qed

lemma outage_run:
  "handleGenerate outage_env studio_globals kontext_form []
     = (Http_Error outage_error 500,
        [Ev_Do (upload_request ''JPEGDATA'' ''photo.jpg''),
         Ev_Generate ''Pollinations_ai'' staged_input,
         Ev_Do kontext_request, Ev_Sleep 3, Ev_Do kontext_request, Ev_Sleep 3,
         Ev_Do kontext_request, Ev_Sleep 3, Ev_Do kontext_request,
         Ev_DeleteImage ''abc'', Ev_Do (delete_request ''abc'')])"
proof -
  have q: "pollinations_request outage_env [] staged_input = Inr kontext_request"
    by (simp add: pollinations_request_def outage_env_fields staged_input_def pollinations_params_def
        Values_Add_def fmt_d_def digits_of.simps plain_encode_def http_NewRequest_def
        pollinationsAIAPIURL_def kontext_request_def)
  have d: "\<And>h. http_do outage_env h kontext_request = Inl (Lib_error ''connection refused'')"
    by (simp add: outage_env_fields kontext_request_def uploadAPIURL_def)
  have g: "\<And>h. PollinationsAI_Generate outage_env [] staged_input h
     = (Inl (Errorf ''Pollinations_ai: failed to call external API after %d attempts: %w''
                 [A_int 4, A_err (Lib_error ''connection refused'')]),
        h @ [Ev_Do kontext_request, Ev_Sleep 3, Ev_Do kontext_request, Ev_Sleep 3,
             Ev_Do kontext_request, Ev_Sleep 3, Ev_Do kontext_request])"
    by (simp add: PollinationsAI_Generate_def q pollinations_loop.simps maxRetries_def
          retryInterval_def client_Do_def time_Sleep_def d)
  have gd: "\<And>h. generate_and_deliver outage_env studio_globals ''Pollinations_ai/kontext'' ''Pollinations_ai''
      (PollinationsAI []) staged_input h
     = (Http_Error outage_error 500,
        h @ [Ev_Generate ''Pollinations_ai'' staged_input,
             Ev_Do kontext_request, Ev_Sleep 3, Ev_Do kontext_request, Ev_Sleep 3,
             Ev_Do kontext_request, Ev_Sleep 3, Ev_Do kontext_request])"
    by (simp add: generate_and_deliver_def g outage_error_def)
  have del: "\<And>h. DeleteImage outage_env ''host-key'' ''abc'' h
      = (Some (Errorf ''failed to execute delete request: %w'' [A_err (Lib_error ''connection refused'')]),
         h @ [Ev_DeleteImage ''abc'', Ev_Do (delete_request ''abc'')])"
    by (simp add: DeleteImage_def outage_env_fields http_NewRequest_def Header_Set_def client_Do_def
        deleteAPIURL_def uploadAPIURL_def delete_request_def)
  show ?thesis
    by (simp add: handleGenerate_def outage_prepare gd run_deferred_def studio_host del)
qed

lemma keys_env_fields:
  "http_do keys_env = (\<lambda>h req. Inl (Lib_error ''connection refused''))"
  "new_request_error keys_env = (\<lambda>m url. None)"
  "getenv keys_env = (\<lambda>k. if k = ''MODELSCOPE_API_KEY'' then ''ms-key'' else [])"
  "rand_Int63n keys_env = 123456"
  by (simp_all add: keys_env_def base_env_def)

lemma keys_registry:
  "providerRegistry keys_globals ''Modelscope'' = Some (ModelScope ''ms-key'')"
  by (simp add: keys_globals_def initializeProviders_def keys_env_fields)

lemma parse_edit:
  "ParseModelName ''Modelscope/Qwen/Qwen-Image-Edit'' = Inr (''Modelscope'', ''Qwen/Qwen-Image-Edit'')"
  by (simp add: ParseModelName_def SplitN2_def)

lemma edit_prepare:
  "prepare_request keys_env keys_globals edit_form []
     = (Inr (''Modelscope/Qwen/Qwen-Image-Edit'', ''Modelscope'', ModelScope ''ms-key'', edit_input, None), [])"
proof -
  have a: "FormValue edit_form ''model'' = ''Modelscope/Qwen/Qwen-Image-Edit''"
    by (simp add: edit_form_def FormValue_def)
  have b: "form_image keys_env edit_form [] = (Inr ([], ''image.png''), [])"
    by (simp add: form_image_def edit_form_def FormValue_def)
  have c: "Method edit_form = ''POST''" "MultipartOK edit_form"
    by (simp_all add: edit_form_def)
  have i: "form_input keys_env edit_form ''Qwen/Qwen-Image-Edit'' = edit_input"
    by (simp add: form_input_def edit_form_def FormValue_def atoi_empty keys_env_fields edit_input_def)
  show ?thesis
    by (simp add: prepare_request_def a b c parse_edit keys_registry i stage_image_def)
qed

lemma edit_generate:
  "ModelScope_Generate keys_env ''ms-key'' edit_input h
     = (Inl (Errorf ''Modelscope: failed to call generation API: %w''
               [A_err (Lib_error ''connection refused'')]),
        h @ [Ev_Do edit_submit_request])"
  by (simp add: ModelScope_Generate_def edit_input_def fmt_d_def digits_of.simps http_NewRequest_def
        keys_env_fields Header_Set_def client_Do_def modelScopeAPIURL_def edit_submit_request_def)

lemma edit_run:
  "handleGenerate keys_env keys_globals edit_form []
     = (Http_Error (Errorf (''Error from provider '' @ sq @ ''%s'' @ sq @ '': %v'')
                      [A_str ''Modelscope'',
                       A_err (Errorf ''Modelscope: failed to call generation API: %w''
                                [A_err (Lib_error ''connection refused'')])]) 500,
        [Ev_Generate ''Modelscope'' edit_input, Ev_Do edit_submit_request])"
proof -
  have m: "ImageBytes edit_input = []" by (simp add: edit_input_def)
  show ?thesis
    by (simp add: handleGenerate_def edit_prepare generate_and_deliver_def edit_generate
          run_deferred_def)
qed

lemma inline_env_fields:
  "http_do inline_env = (\<lambda>h req. Inr (ok_response ''PNGOUT''))"
  "new_request_error inline_env = (\<lambda>m url. None)"
  "getenv inline_env = (\<lambda>k. if k = ''UPLOAD_TO_IMAGE_HOST'' then ''False'' else [])"
  "rand_Int63n inline_env = 123456"
  "rand_Intn inline_env = 7"
  "now_Format inline_env = ''2026_0101_120000''"
  "base64_Encode inline_env = (\<lambda>b. b)"
  "json_dreamifly inline_env = (\<lambda>b. Inl (Lib_error ''invalid character''))"
  "image_Decode inline_env = (\<lambda>b. if b = ''PNGDATA'' then Inr \<lparr>Dx = 640, Dy = 480, Pix = ''pixels''\<rparr>
                                    else Inl (Lib_error ''image: unknown format''))"
  by (simp_all add: inline_env_def studio_env_def base_env_def)

lemma krea_registry: "providerRegistry studio_globals ''Dreamifly'' = Some Dreamifly"
  by (simp add: studio_globals_def initializeProviders_def studio_env_def base_env_def)

lemma krea_prepare:
  "prepare_request inline_env studio_globals krea_form []
     = (Inr (''Dreamifly/Flux-Krea'', ''Dreamifly'', Dreamifly, krea_input, None), [])"
proof -
  have a: "FormValue krea_form ''model'' = ''Dreamifly/Flux-Krea''"
    by (simp add: krea_form_def FormValue_def)
  have b: "form_image inline_env krea_form [] = (Inr ([], ''image.png''), [])"
    by (simp add: form_image_def krea_form_def FormValue_def)
  have c: "Method krea_form = ''POST''" "MultipartOK krea_form"
    by (simp_all add: krea_form_def)
  have i: "form_input inline_env krea_form ''Flux-Krea'' = krea_input"
    by (simp add: form_input_def krea_form_def FormValue_def atoi_empty inline_env_fields krea_input_def)
  have p: "ParseModelName ''Dreamifly/Flux-Krea'' = Inr (''Dreamifly'', ''Flux-Krea'')"
    by (simp add: ParseModelName_def SplitN2_def)
  show ?thesis
    by (simp add: prepare_request_def a b c p krea_registry i stage_image_def)
qed

lemma krea_generate:
  "Generate inline_env Dreamifly krea_input h
     = (Inr \<lparr>OutImageBytes = ''PNGOUT'', OutImageURL = [], Format = []\<rparr>, h @ [Ev_Do krea_request])"
proof -
  have q: "dreamifly_request inline_env krea_input = Inr krea_request"
    by (simp add: dreamifly_request_def inline_env_fields krea_input_def http_NewRequest_def
        Header_Set_def dreamiflyAPIURL_def krea_request_def)
  show ?thesis
    by (simp add: Dreamifly_Generate_def q client_Do_def inline_env_fields ok_response_def
          io_ReadAll_def dreamifly_image_data_def)
qed

lemma lower_False: "strings_ToLower ''False'' = ''false''"
  by (simp add: strings_ToLower_def)

lemma krea_run:
  "handleGenerate inline_env studio_globals krea_form []
     = (Image_Webp ''2026_0101_120000_007.webp'' ''PNGOUT'',
        [Ev_Generate ''Dreamifly'' krea_input, Ev_Do krea_request,
         Ev_WriteFile ''images/2026_0101_120000_007.webp'' ''PNGOUT''])"
proof -
  have cv: "convertToWebP inline_env ''PNGOUT'' = Inl (Errorf ''failed to decode image for WebP conversion: %w'' [A_err (Lib_error ''image: unknown format'')])"
    by (simp add: convertToWebP_def inline_env_fields)
  have gd: "generate_and_deliver inline_env studio_globals ''Dreamifly/Flux-Krea'' ''Dreamifly'' Dreamifly krea_input []
     = (Image_Webp ''2026_0101_120000_007.webp'' ''PNGOUT'',
        [Ev_Generate ''Dreamifly'' krea_input, Ev_Do krea_request,
         Ev_WriteFile ''images/2026_0101_120000_007.webp'' ''PNGOUT''])"
    using krea_generate[of "[Ev_Generate ''Dreamifly'' krea_input]"]
    by (simp add: generate_and_deliver_def cv inline_env_fields lower_empty lower_False
        fmt_7 os_WriteFile_def Let_def del: Generate.simps)
  show ?thesis
    by (simp add: handleGenerate_def krea_prepare gd run_deferred_def)
qed











text \<open>
  The image host's client accepts an answer that reports success without a direct link,
  and the handler copies the link unchecked: staging then succeeds with an empty
  \<open>ImageURL\<close>.
\<close>

lemma nolink_stage:
  "stage_image nolink_env studio_globals kontext_form (PollinationsAI []) bare_input ''PNGDATA'' ''photo.png'' []
     = (Inr (bare_input\<lparr>ImageBytes := ''JPEGDATA'', ImageURL := []\<rparr>, Some ''abc''),
        [Ev_Do (upload_request ''JPEGDATA'' ''photo.jpg'')])"
proof -
  have f: "http_do nolink_env = (\<lambda>h req. Inr (ok_response ''PNGOUT''))"
    "new_request_error nolink_env = (\<lambda>m url. None)"
    "json_upload nolink_env = (\<lambda>b. Inr \<lparr>up_Success = True, up_Message = [], up_ImageID = ''abc'',
                                         up_LinksDirect = []\<rparr>)"
    "image_Decode nolink_env = (\<lambda>b. if b = ''PNGDATA'' then Inr \<lparr>Dx = 640, Dy = 480, Pix = ''pixels''\<rparr>
                                    else Inl (Lib_error ''image: unknown format''))"
    "jpeg_Encode nolink_env = (\<lambda>img q. Inr ''JPEGDATA'')"
    by (simp_all add: nolink_env_def studio_env_def base_env_def)
  have p: "processImage nolink_env ''PNGDATA'' (uint_of 1024) = Inr ''JPEGDATA''"
    by (simp add: processImage_def f uint_of_def)
  have u: "\<And>b fn h. UploadImage nolink_env ''host-key'' b fn h
             = (Inr \<lparr>up_Success = True, up_Message = [], up_ImageID = ''abc'', up_LinksDirect = []\<rparr>,
                h @ [Ev_Do (upload_request b fn)])"
    by (simp add: UploadImage_def f http_NewRequest_def Header_Set_def client_Do_def
        uploadAPIURL_def ok_response_def upload_request_def)
  show ?thesis
    by (simp add: stage_image_def kontext_form_def FormValue_def atoi_empty p
        strings_TrimSuffix_def studio_host u bare_input_def Let_def)
qed

text \<open>
  C1 as stated fails: a request to \<open>handleGenerate\<close> with an uploaded image, for the
  Pollinations.ai provider (which requires a URL), leaves the staging step with both
  fields populated, and this is the input handed to the provider.
\<close>

theorem staging_both_fields_counterexample:
  "RequiresImageURL (PollinationsAI [])
   \<and> stage_image studio_env studio_globals kontext_form (PollinationsAI []) bare_input
         ''PNGDATA'' ''photo.png'' []
       = (Inr (staged_input, Some ''abc''), [Ev_Do (upload_request ''JPEGDATA'' ''photo.jpg'')])
   \<and> ImageBytes staged_input = ''JPEGDATA''
   \<and> ImageURL staged_input = ''https://cdn.nodeimage.com/i/abc.jpg''
   \<and> calls (snd (handleGenerate studio_env studio_globals kontext_form []))
       = [(''Pollinations_ai'', staged_input)]"
  by (simp add: studio_stage studio_run) (simp add: staged_input_def)

text \<open>
  A run of C1 as amended: the staging step of the studio request in \<open>handleGenerate\<close>,
  and the same image given by URL to \<open>handleAPIGenerate\<close>.
\<close>

theorem staging_sets_url_keeps_bytes_witness:
  "RequiresImageURL (PollinationsAI [])
   \<and> ''PNGDATA'' \<noteq> []
   \<and> stage_image studio_env studio_globals kontext_form (PollinationsAI []) bare_input
         ''PNGDATA'' ''photo.png'' []
       = (Inr (staged_input, Some ''abc''), [Ev_Do (upload_request ''JPEGDATA'' ''photo.jpg'')])
   \<and> (\<exists>sizeLimit processedBytes APIKey uploadResp.
           processImage studio_env ''PNGDATA'' sizeLimit = Inr processedBytes
         \<and> imageHostClient studio_globals = Some APIKey
         \<and> UploadImage studio_env APIKey processedBytes
               (strings_TrimSuffix ''photo.png'' ''.png'' @ ''.jpg'') []
             = (Inr uploadResp, [Ev_Do (upload_request ''JPEGDATA'' ''photo.jpg'')])
         \<and> staged_input = bare_input\<lparr>ImageBytes := processedBytes, ImageURL := up_LinksDirect uploadResp\<rparr>
         \<and> ImageBytes staged_input = processedBytes
         \<and> ImageURL staged_input = up_LinksDirect uploadResp
         \<and> Some ''abc'' = Some (up_ImageID uploadResp)
         \<and> ((ImageBytes staged_input \<noteq> [] \<and> ImageURL staged_input \<noteq> [])
              = (processedBytes \<noteq> [] \<and> up_LinksDirect uploadResp \<noteq> [])))
   \<and> ImageBytes staged_input = ''JPEGDATA''
   \<and> ImageURL staged_input = ''https://cdn.nodeimage.com/i/abc.jpg''
   \<and> api_ImageURL (\<lparr>api_Prompt = ''cat'', api_ImageURL = ''https://example.com/photo.png'',
         api_Width = 4096, api_Height = 4096, api_Model = ''Pollinations_ai/kontext'',
         api_Seed = 42, api_Steps = 0\<rparr>) \<noteq> []
   \<and> DownloadFile studio_env ''https://example.com/photo.png'' []
       = (Inr (''PNGDATA'', ''image/jpeg''), [Ev_Get ''https://example.com/photo.png''])
   \<and> api_image studio_env studio_globals
        \<lparr>api_Prompt = ''cat'', api_ImageURL = ''https://example.com/photo.png'',
         api_Width = 4096, api_Height = 4096, api_Model = ''Pollinations_ai/kontext'',
         api_Seed = 42, api_Steps = 0\<rparr> (PollinationsAI []) bare_input []
       = (Inr staged_input,
          [Ev_Get ''https://example.com/photo.png'', Ev_Do (upload_request ''JPEGDATA'' ''api_input.jpg'')])
   \<and> (\<exists>processedBytes APIKey uploadResp.
           processImage studio_env ''PNGDATA'' 1024 = Inr processedBytes
         \<and> imageHostClient studio_globals = Some APIKey
         \<and> UploadImage studio_env APIKey processedBytes ''api_input.jpg'' [Ev_Get ''https://example.com/photo.png'']
             = (Inr uploadResp,
                [Ev_Get ''https://example.com/photo.png'', Ev_Do (upload_request ''JPEGDATA'' ''api_input.jpg'')])
         \<and> staged_input = bare_input\<lparr>ImageBytes := processedBytes, ImageURL := up_LinksDirect uploadResp\<rparr>
         \<and> ImageBytes staged_input = processedBytes
         \<and> ImageURL staged_input = up_LinksDirect uploadResp
         \<and> ((ImageBytes staged_input \<noteq> [] \<and> ImageURL staged_input \<noteq> [])
              = (processedBytes \<noteq> [] \<and> up_LinksDirect uploadResp \<noteq> [])))"
proof -
  let ?req = "\<lparr>api_Prompt = ''cat'', api_ImageURL = ''https://example.com/photo.png'',
         api_Width = 4096, api_Height = 4096, api_Model = ''Pollinations_ai/kontext'',
         api_Seed = 42, api_Steps = 0\<rparr>"
  have a: "RequiresImageURL (PollinationsAI [])" by simp
  have b: "''PNGDATA'' \<noteq> []" by simp
  have u: "api_ImageURL ?req \<noteq> []" by simp
  have d: "DownloadFile studio_env ''https://example.com/photo.png'' []
       = (Inr (''PNGDATA'', ''image/jpeg''), [Ev_Get ''https://example.com/photo.png''])"
    by (simp add: studio_Download)
  then have d': "DownloadFile studio_env (api_ImageURL ?req) []
       = (Inr (''PNGDATA'', ''image/jpeg''), [Ev_Get ''https://example.com/photo.png''])"
    by simp
  have v: "ImageBytes staged_input = ''JPEGDATA''"
    "ImageURL staged_input = ''https://cdn.nodeimage.com/i/abc.jpg''"
    by (simp_all add: staged_input_def)
  note t = staging_sets_url_keeps_bytes[of "PollinationsAI []" "''PNGDATA''" studio_env studio_globals
      kontext_form bare_input "''photo.png''" "[]" staged_input "Some ''abc''"
      "[Ev_Do (upload_request ''JPEGDATA'' ''photo.jpg'')]" ?req "''PNGDATA''" "''image/jpeg''"
      "[Ev_Get ''https://example.com/photo.png'']" staged_input
      "[Ev_Get ''https://example.com/photo.png'', Ev_Do (upload_request ''JPEGDATA'' ''api_input.jpg'')]"]
  have w: "\<exists>sizeLimit processedBytes APIKey uploadResp.
           processImage studio_env ''PNGDATA'' sizeLimit = Inr processedBytes
         \<and> imageHostClient studio_globals = Some APIKey
         \<and> UploadImage studio_env APIKey processedBytes
               (strings_TrimSuffix ''photo.png'' ''.png'' @ ''.jpg'') []
             = (Inr uploadResp, [Ev_Do (upload_request ''JPEGDATA'' ''photo.jpg'')])
         \<and> staged_input = bare_input\<lparr>ImageBytes := processedBytes, ImageURL := up_LinksDirect uploadResp\<rparr>
         \<and> ImageBytes staged_input = processedBytes
         \<and> ImageURL staged_input = up_LinksDirect uploadResp
         \<and> Some ''abc'' = Some (up_ImageID uploadResp)
         \<and> ((ImageBytes staged_input \<noteq> [] \<and> ImageURL staged_input \<noteq> [])
              = (processedBytes \<noteq> [] \<and> up_LinksDirect uploadResp \<noteq> []))"
    using t[THEN conjunct1, THEN mp, OF conjI[OF a conjI[OF b studio_stage]]] .
  have x: "\<exists>processedBytes APIKey uploadResp.
           processImage studio_env ''PNGDATA'' 1024 = Inr processedBytes
         \<and> imageHostClient studio_globals = Some APIKey
         \<and> UploadImage studio_env APIKey processedBytes ''api_input.jpg'' [Ev_Get ''https://example.com/photo.png'']
             = (Inr uploadResp,
                [Ev_Get ''https://example.com/photo.png'', Ev_Do (upload_request ''JPEGDATA'' ''api_input.jpg'')])
         \<and> staged_input = bare_input\<lparr>ImageBytes := processedBytes, ImageURL := up_LinksDirect uploadResp\<rparr>
         \<and> ImageBytes staged_input = processedBytes
         \<and> ImageURL staged_input = up_LinksDirect uploadResp
         \<and> ((ImageBytes staged_input \<noteq> [] \<and> ImageURL staged_input \<noteq> [])
              = (processedBytes \<noteq> [] \<and> up_LinksDirect uploadResp \<noteq> []))"
    using t[THEN conjunct2, THEN mp, OF conjI[OF a conjI[OF u conjI[OF d' conjI[OF b studio_api_image]]]]] .
  show ?thesis
    by (intro conjI a b studio_stage w v u d studio_api_image x)
qed

text \<open>
  A run of C3 as amended, on the error path of the provider: the image is staged, every
  attempt to reach Pollinations.ai fails, the response is the error 500, and
  \<open>DeleteImage\<close> is called once, with the staged image's ID.
\<close>

theorem staged_image_deleted_once_witness:
  "prepare_request outage_env studio_globals kontext_form []
     = (Inr (''Pollinations_ai/kontext'', ''Pollinations_ai'', PollinationsAI [], staged_input, Some ''abc''),
        [Ev_Do (upload_request ''JPEGDATA'' ''photo.jpg'')])
   \<and> fst (handleGenerate outage_env studio_globals kontext_form []) = Http_Error outage_error 500
   \<and> deletes (snd (handleGenerate outage_env studio_globals kontext_form [])) = [''abc'']
   \<and> deletes (snd (handleAPIGenerate outage_env studio_globals kontext_api [])) = []"
  using staged_image_deleted_once[OF outage_prepare outage_run, of kontext_api] outage_prepare
  by (simp add: outage_run)

text \<open>
  C3 as stated fails for the v1 endpoint: a request to \<open>handleAPIGenerate\<close> with an
  image URL, for a provider that requires a URL, uploads the processed image to the host
  (the second event) and succeeds, and \<open>DeleteImage\<close> is never called.
\<close>

theorem api_staged_image_not_deleted_counterexample:
  "handleAPIGenerate studio_env studio_globals kontext_api []
     = (Api_Success ''https://cdn.nodeimage.com/i/abc.jpg'',
        [Ev_Get ''https://example.com/photo.png'',
         Ev_Do (upload_request ''JPEGDATA'' ''api_input.jpg''),
         Ev_Generate ''Pollinations_ai'' staged_input, Ev_Do kontext_request,
         Ev_WriteFile ''images/2026_0101_120000_007.webp'' ''PNGOUT'',
         Ev_Do (upload_request ''PNGOUT'' ''images/2026_0101_120000_007.webp'')])
   \<and> deletes (snd (handleAPIGenerate studio_env studio_globals kontext_api [])) = []"
  by (simp add: studio_api_run)

text \<open>
  C4 as stated fails: a request to \<open>handleGenerate\<close> for Pollinations_ai/kontext with
  width and height 4096 hands 4096 by 4096 to the provider, although the model declares a
  maximum of 1024 by 1024.
\<close>

theorem size_clamp_counterexample:
  "calls (snd (handleGenerate studio_env studio_globals kontext_form []))
     = [(''Pollinations_ai'', staged_input)]
   \<and> Width staged_input = 4096 \<and> Height staged_input = 4096
   \<and> providerRegistry studio_globals ''Pollinations_ai'' = Some (PollinationsAI [])
   \<and> find (\<lambda>m. Name m = Model staged_input) (GetModels (PollinationsAI []))
       = Some \<lparr>Name = ''kontext'', SupportedParams = [''seed'', ''image''],
               MaxWidth = 1024, MaxHeight = 1024\<rparr>"
  by (simp add: studio_run studio_registry) (simp add: staged_input_def pollinationsAIModels_def)

text \<open>
  A run of C4 as amended: the width handed to the provider is the form's, 4096.
\<close>

theorem size_passed_unclamped_witness:
  "handleGenerate studio_env studio_globals kontext_form []
     = (Json_ImageUrl ''https://cdn.nodeimage.com/i/abc.jpg'',
        [Ev_Do (upload_request ''JPEGDATA'' ''photo.jpg''),
         Ev_Generate ''Pollinations_ai'' staged_input, Ev_Do kontext_request,
         Ev_WriteFile ''images/2026_0101_120000_007.webp'' ''PNGOUT'',
         Ev_Do (upload_request ''PNGOUT'' ''images/2026_0101_120000_007.webp''),
         Ev_DeleteImage ''abc'', Ev_Do (delete_request ''abc'')])
   \<and> Width staged_input = (if fst (strconv_Atoi (FormValue kontext_form ''width'')) = 0 then 1024
                            else fst (strconv_Atoi (FormValue kontext_form ''width'')))
   \<and> Width staged_input = 4096
   \<and> Height staged_input = 4096"
proof -
  let ?R = "handleGenerate studio_env studio_globals kontext_form []"
  have "calls (snd ?R) = calls []
      \<or> (\<exists>providerName input. calls (snd ?R) = calls [] @ [(providerName, input)]
            \<and> Width input = (if fst (strconv_Atoi (FormValue kontext_form ''width'')) = 0 then 1024
                              else fst (strconv_Atoi (FormValue kontext_form ''width'')))
            \<and> Height input = (if fst (strconv_Atoi (FormValue kontext_form ''height'')) = 0 then 1024
                               else fst (strconv_Atoi (FormValue kontext_form ''height''))))"
    using size_passed_unclamped[of studio_env studio_globals kontext_form "[]" "fst ?R" "snd ?R"
            kontext_api "fst (handleAPIGenerate studio_env studio_globals kontext_api [])"
            "snd (handleAPIGenerate studio_env studio_globals kontext_api [])"]
    by simp
  moreover have "calls (snd ?R) = [(''Pollinations_ai'', staged_input)]"
    by (simp add: studio_run)
  ultimately have w: "Width staged_input = (if fst (strconv_Atoi (FormValue kontext_form ''width'')) = 0 then 1024
                            else fst (strconv_Atoi (FormValue kontext_form ''width'')))"
    by simp
  have v: "Width staged_input = 4096" "Height staged_input = 4096"
    by (simp_all add: staged_input_def)
  show ?thesis
    by (intro conjI studio_run w v)
qed

text \<open>
  C5, where the code misses it. Modelscope's Qwen/Qwen-Image-Edit has "image" among its
  supported parameters; a request to \<open>handleGenerate\<close> for it with no image file and no
  image URL is not rejected: the provider is called and sends the submit request, with an
  empty image URL, to the upstream API (here the network is down, so the call fails).
\<close>

theorem modelscope_edit_without_image_calls_upstream:
  "find (\<lambda>m. Name m = ''Qwen/Qwen-Image-Edit'') (GetModels (ModelScope ''ms-key''))
     = Some \<lparr>Name = ''Qwen/Qwen-Image-Edit'', SupportedParams = [''seed'', ''image''],
             MaxWidth = 2048, MaxHeight = 2048\<rparr>
   \<and> ImageFile edit_form = File_missing
   \<and> FormValue edit_form ''imageUrl'' = []
   \<and> handleGenerate keys_env keys_globals edit_form []
     = (Http_Error (Errorf (''Error from provider '' @ sq @ ''%s'' @ sq @ '': %v'')
                      [A_str ''Modelscope'',
                       A_err (Errorf ''Modelscope: failed to call generation API: %w''
                                [A_err (Lib_error ''connection refused'')])]) 500,
        [Ev_Generate ''Modelscope'' edit_input, Ev_Do edit_submit_request])"
  by (simp add: edit_run) (simp add: modelScopeModels_def edit_form_def FormValue_def)



end
